(* ===== verification/Prelude.thy ===== *)
theory Prelude
  imports Main "HOL-Library.Char_ord" "HOL-Library.List_Lexorder" "HOL-Library.Sublist"
    "HOL-Library.Monad_Syntax"
begin

text \<open>
  Shared vocabulary of the Fyyur development: the names of the model's types, the
  collections of facts the component theories extend, and generic lemmas on lists and
  association lists that several components use. Strings are \<open>char list\<close>, ordered
  lexicographically by \<open>HOL-Library.List_Lexorder\<close> over the code order of
  \<open>HOL-Library.Char_ord\<close>, which is how Python compares \<open>str\<close> values.
\<close>

named_theorems table_simps "characteristic equations of the database table operations"
named_theorems handler_defs "definitions unfolded when a request handler is evaluated"

text \<open>Primary keys of the three tables (SQLAlchemy \<open>db.Integer\<close> columns).\<close>

type_synonym ident = int

text \<open>
  A table is an association list from primary key to row, in primary-key order: the
  order in which \<open>Model.query.all()\<close> returns the rows of a heap table that is only
  appended to.
\<close>

type_synonym 'r table = "(ident \<times> 'r) list"

text \<open>
  Exceptions a handler can raise before or outside its \<open>try\<close> block, and the HTTP
  status Flask answers with: \<open>BadRequestKeyError\<close> (a missing \<open>request.form[k]\<close>)
  is 400, every other unhandled exception 500.
\<close>

datatype py_exc =
    AttributeError | BadRequestKeyError | BuildError | UnmappedInstanceError | ObjectDeletedError
  | ParserError

definition status_of :: "py_exc \<Rightarrow> nat" where
  "status_of e = (if e = BadRequestKeyError then 400 else 500)"

text \<open>
  A reference for order-preserving deduplication: the distinct elements in the order of
  their first occurrence.
\<close>

fun uniq :: "'a list \<Rightarrow> 'a list" where
  "uniq [] = []"
| "uniq (x # xs) = x # uniq (filter (\<lambda>y. y \<noteq> x) xs)"

text \<open>Appending each element that is not yet present, as \<open>if x not in acc: acc.append(x)\<close>.\<close>

fun append_new :: "'a list \<Rightarrow> 'a list \<Rightarrow> 'a list" where
  "append_new acc [] = acc"
| "append_new acc (x # xs) = append_new (if x \<in> set acc then acc else acc @ [x]) xs"

subsection \<open>Lists\<close>

text \<open>
  Pushing each element to the front of one of two lists, as \<open>list.insert(0, x)\<close> does,
  reverses the order: the two lists are the reversed filters.
\<close>

lemma foldl_push_front_partition:
  "foldl (\<lambda>(a, b) x. if P x then (x # a, b) else (a, x # b)) (a0, b0) xs =
     (rev (filter P xs) @ a0, rev (filter (\<lambda>x. \<not> P x) xs) @ b0)"
  by (induction xs arbitrary: a0 b0) auto

lemma length_filter_split:
  "length (filter P xs) + length (filter (\<lambda>x. \<not> P x) xs) = length xs"
  by (induction xs) auto

lemma sorted_wrt_less_snoc:
  "sorted_wrt (<) (xs @ [x]) \<longleftrightarrow> sorted_wrt (<) xs \<and> (\<forall>y \<in> set xs. y < x)"
  by (auto simp: sorted_wrt_append)

lemma set_uniq [simp]: "set (uniq xs) = set xs"
  by (induction xs rule: uniq.induct) auto

lemma distinct_uniq [simp]: "distinct (uniq xs)"
  by (induction xs rule: uniq.induct) auto

lemma append_new_uniq:
  "append_new acc xs = acc @ uniq (filter (\<lambda>x. x \<notin> set acc) xs)"
proof (induction xs arbitrary: acc)
  case Nil then show ?case by simp
next
  case (Cons x xs)
  then show ?case
    by (auto simp: conj_commute)
qed

lemma uniq_map_inj:
  "inj_on f (set xs) \<Longrightarrow> uniq (map f xs) = map f (uniq xs)"
proof (induction xs rule: uniq.induct)
  case 1 then show ?case by simp
next
  case (2 x xs)
  have "filter (\<lambda>y. y \<noteq> f x) (map f xs) = map f (filter (\<lambda>y. y \<noteq> x) xs)"
    using "2.prems" by (induction xs) (auto simp: inj_on_def)
  moreover have "inj_on f (set (filter (\<lambda>y. y \<noteq> x) xs))"
    using "2.prems" by (auto intro: inj_on_subset)
  ultimately show ?case using "2.IH" by simp
qed

subsection \<open>Association lists keyed by primary key\<close>

lemma map_of_snoc_fresh:
  "k \<notin> set (map fst t) \<Longrightarrow> map_of (t @ [(k, v)]) = (map_of t)(k \<mapsto> v)"
  by (induction t) (auto simp: fun_eq_iff)

lemma map_of_filter_key:
  "distinct (map fst t) \<Longrightarrow> map_of (filter (\<lambda>(k, _). k \<noteq> i) t) = (map_of t)(i := None)"
  by (induction t) (auto simp: fun_eq_iff)

lemma map_of_map_snd:
  "map_of (map (\<lambda>(k, r). (k, f k r)) t) k = map_option (f k) (map_of t k)"
  by (induction t) auto

lemma map_fst_map_snd [simp]:
  "map fst (map (\<lambda>(k, r). (k, f k r)) t) = map fst t"
  by (induction t) auto

lemma map_fst_filter_key:
  "map fst (filter (\<lambda>(k, _). P k) t) = filter P (map fst t)"
  by (induction t) auto

lemma sorted_wrt_distinct_less:
  "sorted_wrt (<) (xs :: 'a :: linorder list) \<Longrightarrow> distinct xs"
  by (induction xs) auto

end
