(* ===== verification/Text.thy ===== *)
theory Text
  imports Prelude
begin

text \<open>
  The string operations the handlers rely on, written as the libraries implement them:
  Python's \<open>sep.join(ws)\<close> and \<open>s.split(sep)\<close> (the encoding of a venue's or an
  artist's genres, \<^verbatim>\<open>app.py\<close> lines 146, 182, 262, 308, 359, 398), Python's
  \<open>'%{}%'.format(x)\<close> (lines 137, 251), PostgreSQL's \<open>ILIKE\<close> pattern match
  behind SQLAlchemy's \<open>ilike\<close> (lines 137, 251), and PostgreSQL's input function
  for \<open>integer\<close> columns, which turns the form's \<open>artist_id\<close>/\<open>venue_id\<close> strings
  into keys (line 449). Characters are 8-bit \<open>char\<close>s: the model is exact on ASCII text.
\<close>

subsection \<open>Python \<open>str.join\<close> and \<open>str.split\<close>\<close>

fun py_join :: "string \<Rightarrow> string list \<Rightarrow> string" where
  "py_join sep [] = []"
| "py_join sep [w] = w"
| "py_join sep (w # v # ws) = w @ sep @ py_join sep (v # ws)"

text \<open>
  \<open>s.split(d)\<close> with an explicit one-character separator: it never returns an empty list,
  and every occurrence of \<open>d\<close> separates two (possibly empty) fields.
\<close>

fun py_split :: "char \<Rightarrow> string \<Rightarrow> string list" where
  "py_split d [] = [[]]"
| "py_split d (c # cs) =
     (let ws = py_split d cs in if c = d then [] # ws else (c # hd ws) # tl ws)"

subsection \<open>Lower case and the \<open>ILIKE\<close> pattern match\<close>

definition lower_char :: "char \<Rightarrow> char" where
  "lower_char c =
     (if CHR ''A'' \<le> c \<and> c \<le> CHR ''Z'' then char_of (of_char c + (32 :: nat)) else c)"

definition lower :: "string \<Rightarrow> string" where
  "lower s = map lower_char s"

text \<open>
  \<open>like p s\<close>: SQL \<open>LIKE\<close> with PostgreSQL's default escape character, the backslash.
  \<open>%\<close> matches any sequence, \<open>_\<close> any one character, \<open>\\c\<close> the character \<open>c\<close>, every
  other character itself. A trailing lone backslash (an error in PostgreSQL) matches
  itself here; the handlers' patterns end with \<open>%\<close>, so they never have one.
\<close>

fun like :: "string \<Rightarrow> string \<Rightarrow> bool" where
  "like [] s \<longleftrightarrow> s = []"
| "like (c # p) s \<longleftrightarrow>
     (if c = CHR ''%'' then like p s \<or> (case s of [] \<Rightarrow> False | _ # s' \<Rightarrow> like (c # p) s')
      else if c = CHR ''_'' then (case s of [] \<Rightarrow> False | _ # s' \<Rightarrow> like p s')
      else if c = CHR 0x5C \<and> p \<noteq> [] then
        (case s of [] \<Rightarrow> False | x # s' \<Rightarrow> x = hd p \<and> like (tl p) s')
      else (case s of [] \<Rightarrow> False | x # s' \<Rightarrow> x = c \<and> like p s'))"

text \<open>\<open>column.ilike(pattern)\<close>: both sides are folded to lower case first.\<close>

definition ilike :: "string \<Rightarrow> string \<Rightarrow> bool" where
  "ilike s p \<longleftrightarrow> like (lower p) (lower s)"

text \<open>Python's \<open>'%{}%'.format(x)\<close> where \<open>x\<close> is \<open>request.form.get(...)\<close>: \<open>None\<close> prints as \<open>None\<close>.\<close>

definition py_str :: "string option \<Rightarrow> string" where
  "py_str x = (case x of None \<Rightarrow> ''None'' | Some s \<Rightarrow> s)"

definition contains_pattern :: "string option \<Rightarrow> string" where
  "contains_pattern x = CHR ''%'' # py_str x @ [CHR ''%'']"

definition no_wild :: "string \<Rightarrow> bool" where
  "no_wild t \<longleftrightarrow> list_all (\<lambda>c. c \<noteq> CHR ''%'' \<and> c \<noteq> CHR ''_'' \<and> c \<noteq> CHR 0x5C) t"

subsection \<open>PostgreSQL \<open>integer\<close> input\<close>

text \<open>
  \<open>int4in\<close>: optional white space, an optional sign, at least one decimal digit,
  optional white space, and a value in the 32-bit range; anything else is an
  "invalid input syntax" or "out of range" error (here \<open>None\<close>).
\<close>

definition is_space :: "char \<Rightarrow> bool" where
  "is_space c \<longleftrightarrow> c = CHR '' '' \<or> (CHR 0x09 \<le> c \<and> c \<le> CHR 0x0D)"

definition is_digit :: "char \<Rightarrow> bool" where
  "is_digit c \<longleftrightarrow> CHR ''0'' \<le> c \<and> c \<le> CHR ''9''"

definition digit_val :: "char \<Rightarrow> int" where
  "digit_val c = int (of_char c) - 48"

definition digits_val :: "string \<Rightarrow> int" where
  "digits_val ds = foldl (\<lambda>n c. 10 * n + digit_val c) 0 ds"

definition parse_digits :: "string \<Rightarrow> int option" where
  "parse_digits ds = (if ds \<noteq> [] \<and> list_all is_digit ds then Some (digits_val ds) else None)"

definition strip_spaces :: "string \<Rightarrow> string" where
  "strip_spaces s = rev (dropWhile is_space (rev (dropWhile is_space s)))"

definition int4_min :: int where "int4_min = - (2 ^ 31)"
definition int4_max :: int where "int4_max = 2 ^ 31 - 1"

definition parse_int4 :: "string \<Rightarrow> int option" where
  "parse_int4 s =
     (let t = strip_spaces s;
          v = (case t of
                 [] \<Rightarrow> None
               | c # ds \<Rightarrow>
                   if c = CHR ''-'' then map_option uminus (parse_digits ds)
                   else if c = CHR ''+'' then parse_digits ds
                   else parse_digits t)
      in case v of
           None \<Rightarrow> None
         | Some i \<Rightarrow> if int4_min \<le> i \<and> i \<le> int4_max then Some i else None)"

subsection \<open>Properties of split and join\<close>

lemma py_split_not_Nil [simp]: "py_split d s \<noteq> []"
  by (induction s) (auto simp: Let_def)

lemma py_split_no_sep:
  "d \<notin> set w \<Longrightarrow> py_split d (w @ r) = (w @ hd (py_split d r)) # tl (py_split d r)"
  by (induction w) (auto simp: Let_def)

lemma py_split_sep_app:
  "d \<notin> set w \<Longrightarrow> py_split d (w @ d # r) = w # py_split d r"
  by (simp add: py_split_no_sep)

lemma py_split_word: "d \<notin> set w \<Longrightarrow> py_split d w = [w]"
  using py_split_no_sep [of d w "[]"] by simp

text \<open>
  Round trip of the genres encoding: splitting the joined list gives the list back when
  it is not empty and no element contains the separator.
\<close>

lemma py_split_join:
  assumes "ws \<noteq> []" and "list_all (\<lambda>w. d \<notin> set w) ws"
  shows "py_split d (py_join [d] ws) = ws"
  using assms
proof (induction ws rule: induct_list012)
  case 1 then show ?case by simp
next
  case (2 w) then show ?case by (simp add: py_split_word)
next
  case (3 w v ws)
  then show ?case by (simp add: py_split_sep_app)
qed

text \<open>Joining the pieces of Python's str.split on a one-character separator with that separator gives back the original string.\<close>

lemma py_join_split: "py_join [d] (py_split d s) = s"
proof (induction s)
  case Nil then show ?case by simp
next
  case (Cons c s)
  obtain w ws where ws: "py_split d s = w # ws"
    by (cases "py_split d s") auto
  with Cons.IH show ?case
    by (cases ws) (auto simp: Let_def)
qed

lemma py_split_join_Nil: "py_split d (py_join [d] []) = [[]]"
  by simp

subsection \<open>Properties of the pattern match\<close>

text \<open>Characteristic equations of \<open>like\<close>, one per kind of pattern character.\<close>

lemma like_percent_Nil: "like (CHR ''%'' # p) [] \<longleftrightarrow> like p []"
  by simp

lemma like_percent_Cons:
  "like (CHR ''%'' # p) (x # s) \<longleftrightarrow> like p (x # s) \<or> like (CHR ''%'' # p) s"
  by simp

lemma like_underscore:
  "like (CHR ''_'' # p) s \<longleftrightarrow> (case s of [] \<Rightarrow> False | _ # s' \<Rightarrow> like p s')"
  by simp

lemma like_plain:
  "c \<noteq> CHR ''%'' \<Longrightarrow> c \<noteq> CHR ''_'' \<Longrightarrow> c \<noteq> CHR 0x5C \<Longrightarrow>
   like (c # p) s \<longleftrightarrow> (case s of [] \<Rightarrow> False | x # s' \<Rightarrow> x = c \<and> like p s')"
  by simp

declare like.simps(2) [simp del]

lemma like_literal:
  "no_wild t \<Longrightarrow> like (t @ q) s \<longleftrightarrow> (\<exists>zs. s = t @ zs \<and> like q zs)"
proof (induction t arbitrary: s)
  case Nil then show ?case by simp
next
  case (Cons c t)
  then show ?case by (cases s) (auto simp: no_wild_def like_plain)
qed

lemma like_percent:
  "like (CHR ''%'' # q) s \<longleftrightarrow> (\<exists>xs zs. s = xs @ zs \<and> like q zs)"
proof (induction s)
  case Nil then show ?case by (simp add: like_percent_Nil)
next
  case (Cons x s)
  show ?case
  proof
    assume "like (CHR ''%'' # q) (x # s)"
    then consider "like q (x # s)" | "like (CHR ''%'' # q) s"
      by (auto simp: like_percent_Cons)
    then show "\<exists>xs zs. x # s = xs @ zs \<and> like q zs"
    proof cases
      case 1 then show ?thesis by (metis append_Nil)
    next
      case 2
      with Cons.IH obtain xs zs where "s = xs @ zs" "like q zs" by blast
      then show ?thesis by (metis append_Cons)
    qed
  next
    assume "\<exists>xs zs. x # s = xs @ zs \<and> like q zs"
    then obtain xs zs where "x # s = xs @ zs" "like q zs" by blast
    with Cons.IH show "like (CHR ''%'' # q) (x # s)"
      by (cases xs) (auto simp: like_percent_Cons)
  qed
qed

lemma like_percent_end: "like [CHR ''%''] s"
  using like_percent [of "[]" s] by auto

lemma like_contains:
  "no_wild t \<Longrightarrow> like (CHR ''%'' # t @ [CHR ''%'']) s \<longleftrightarrow> sublist t s"
  by (auto simp: like_percent like_literal like_percent_end sublist_def)

lemma lower_char_special:
  assumes "c' \<in> {CHR ''%'', CHR ''_'', CHR 0x5C}"
  shows "lower_char c = c' \<longleftrightarrow> c = c'"
proof (cases "CHR ''A'' \<le> c \<and> c \<le> CHR ''Z''")
  case True
  then have "(65 :: nat) \<le> of_char c" and "of_char c \<le> (90 :: nat)"
    by (simp_all add: less_eq_char_def)
  then have "of_char (lower_char c) = (of_char c + 32 :: nat)"
    using True by (simp add: lower_char_def)
  moreover have "of_char c' \<in> {37, 95, 92 :: nat}"
    using assms by auto
  ultimately have "lower_char c \<noteq> c'" and "c \<noteq> c'"
    using \<open>65 \<le> of_char c\<close> \<open>of_char c \<le> 90\<close> by (auto dest: arg_cong [of _ _ of_char])
  then show ?thesis by simp
next
  case False
  then have "lower_char c = c"
    unfolding lower_char_def by (rule if_not_P)
  then show ?thesis by simp
qed

lemma no_wild_lower [simp]: "no_wild (lower t) \<longleftrightarrow> no_wild t"
  by (induction t) (auto simp: no_wild_def lower_def lower_char_special)

lemma lower_percent [simp]: "lower_char CHR ''%'' = CHR ''%''"
  by (simp add: lower_char_def)

lemma lower_underscore [simp]: "lower_char CHR ''_'' = CHR ''_''"
  by (simp add: lower_char_def)

text \<open>
  The venue and artist search (\<^verbatim>\<open>app.py\<close> lines 137 and 251) is a case-insensitive
  substring test whenever the search term has no pattern character in it.
\<close>

lemma lower_contains_pattern:
  "lower (contains_pattern (Some t)) = CHR ''%'' # lower t @ [CHR ''%'']"
  by (simp add: contains_pattern_def py_str_def lower_def)

lemma ilike_contains_sublist:
  "no_wild t \<Longrightarrow> ilike s (contains_pattern (Some t)) \<longleftrightarrow> sublist (lower t) (lower s)"
  by (simp add: ilike_def lower_contains_pattern like_contains)

text \<open>C21. For a term without wildcard or escape characters, the pattern built by the searches matches a name under ILIKE exactly when the lower-cased term is a substring of the lower-cased name.\<close>

lemma ilike_contains:
  assumes "no_wild t"
  shows "ilike s (contains_pattern (Some t)) \<longleftrightarrow> sublist (lower t) (lower s)"
proof -
  have "lower (contains_pattern (Some t)) = CHR ''%'' # lower t @ [CHR ''%'']"
    by (rule lower_contains_pattern)
  moreover have "no_wild (lower t)" using assms by simp
  ultimately show ?thesis by (simp add: ilike_def like_contains)
qed

text \<open>
  C22. The search term is not escaped: an underscore in it is a wildcard, so the term
  \<open>_\<close> matches every non-empty name, though no name need contain an underscore.
\<close>

lemma ilike_underscore_term:
  "ilike s (contains_pattern (Some ''_'')) \<longleftrightarrow> s \<noteq> []"
proof -
  have "lower (contains_pattern (Some ''_'')) = CHR ''%'' # CHR ''_'' # [CHR ''%'']"
    by (simp add: contains_pattern_def py_str_def lower_def)
  moreover have "like (CHR ''%'' # CHR ''_'' # [CHR ''%'']) u \<longleftrightarrow> u \<noteq> []" for u
    by (auto simp: like_percent like_underscore like_percent_end Cons_eq_append_conv
        split: list.splits) (metis neq_Nil_conv)
  ultimately show ?thesis by (simp add: ilike_def lower_def)
qed

subsection \<open>Properties of the integer input function\<close>


end
