(* ===== verification/Model.thy ===== *)
theory Model
  imports Text
begin

text \<open>
  The persistence model of \<^verbatim>\<open>app.py\<close> (lines 31-74): the \<open>Venue\<close>, \<open>Artist\<close> and
  \<open>Show\<close> tables, the column constraints PostgreSQL enforces on them (\<open>nullable=False\<close>,
  \<open>db.String(n)\<close> lengths, the two foreign keys of \<open>Show\<close>), and the one unit of work
  each request handler hands to \<open>db.session.commit()\<close>, as a \<open>change\<close>. Committing a
  change either fails with a \<open>db_error\<close>, after which the handler rolls back, or gives the
  new database; \<open>rollback\<close> gives the database after the handler's
  \<open>db.session.rollback()\<close>. Rows are kept in primary-key order; keys come from a
  per-table counter, PostgreSQL's \<open>SERIAL\<close> sequence, which stops at the \<open>int4\<close>
  maximum and does not give back values consumed by a failed insert.
\<close>

subsection \<open>Rows and the database\<close>

text \<open>
  Nullable columns (\<open>facebook_link\<close>, \<open>website_link\<close>, \<open>seeking_description\<close>) are
  \<open>string option\<close>. \<open>seeking_talent\<close>/\<open>seeking_venue\<close> are \<open>db.String(6)\<close> columns.
\<close>

record venue =
  v_name :: string
  v_city :: string
  v_state :: string
  v_address :: string
  v_phone :: string
  v_genres :: string
  v_image_link :: string
  v_facebook_link :: "string option"
  v_website_link :: "string option"
  v_seeking_talent :: string
  v_seeking_description :: "string option"

record artist =
  a_name :: string
  a_city :: string
  a_state :: string
  a_phone :: string
  a_genres :: string
  a_image_link :: string
  a_facebook_link :: "string option"
  a_website_link :: "string option"
  a_seeking_venue :: string
  a_seeking_description :: "string option"

text \<open>\<open>Show.venue_id\<close> and \<open>Show.artist_id\<close> are nullable foreign keys; \<open>date\<close> is \<open>db.String(30)\<close>.\<close>

record show_row =
  s_date :: string
  s_venue_id :: "ident option"
  s_artist_id :: "ident option"

record db =
  venue_rows :: "venue table"
  artist_rows :: "artist table"
  show_rows :: "show_row table"
  next_venue_id :: ident
  next_artist_id :: ident
  next_show_id :: ident

definition init_db :: db where
  "init_db = \<lparr>venue_rows = [], artist_rows = [], show_rows = [],
     next_venue_id = 1, next_artist_id = 1, next_show_id = 1\<rparr>"

text \<open>
  Failures of a commit: a value that does not fit its column or does not parse as an
  integer (\<open>DataError\<close>), a violated \<open>NOT NULL\<close> or foreign key
  (\<open>IntegrityError\<close>), an \<open>UPDATE\<close>/\<open>DELETE\<close> that matched no row
  (SQLAlchemy's \<open>StaleDataError\<close>). The handlers catch all of them with a bare
  \<open>except\<close>.
\<close>

datatype db_error = Data_error | Integrity_error | Stale_data

subsection \<open>Column constraints\<close>

definition fits :: "nat \<Rightarrow> string \<Rightarrow> bool" where
  "fits n s \<longleftrightarrow> length s \<le> n"

definition fits_opt :: "nat \<Rightarrow> string option \<Rightarrow> bool" where
  "fits_opt n v \<longleftrightarrow> (case v of None \<Rightarrow> True | Some s \<Rightarrow> fits n s)"

definition venue_cols_ok :: "venue \<Rightarrow> bool" where
  "venue_cols_ok v \<longleftrightarrow>
     fits 100 (v_name v) \<and> fits 120 (v_city v) \<and> fits 120 (v_state v) \<and>
     fits 120 (v_address v) \<and> fits 120 (v_phone v) \<and> fits 300 (v_genres v) \<and>
     fits 500 (v_image_link v) \<and> fits_opt 120 (v_facebook_link v) \<and>
     fits_opt 120 (v_website_link v) \<and> fits 6 (v_seeking_talent v) \<and>
     fits_opt 120 (v_seeking_description v)"

definition artist_cols_ok :: "artist \<Rightarrow> bool" where
  "artist_cols_ok a \<longleftrightarrow>
     fits 100 (a_name a) \<and> fits 120 (a_city a) \<and> fits 120 (a_state a) \<and>
     fits 120 (a_phone a) \<and> fits 300 (a_genres a) \<and> fits 500 (a_image_link a) \<and>
     fits_opt 120 (a_facebook_link a) \<and> fits_opt 120 (a_website_link a) \<and>
     fits 6 (a_seeking_venue a) \<and> fits_opt 120 (a_seeking_description a)"

text \<open>A foreign key is \<open>NULL\<close> or the key of a row of the referenced table.\<close>

definition fk_ok :: "'r table \<Rightarrow> ident option \<Rightarrow> bool" where
  "fk_ok t k \<longleftrightarrow> (case k of None \<Rightarrow> True | Some i \<Rightarrow> i \<in> set (map fst t))"

definition show_ok :: "db \<Rightarrow> show_row \<Rightarrow> bool" where
  "show_ok d s \<longleftrightarrow>
     fits 30 (s_date s) \<and> fk_ok (venue_rows d) (s_venue_id s) \<and> fk_ok (artist_rows d) (s_artist_id s)"

subsection \<open>Table operations\<close>

definition get_row :: "'r table \<Rightarrow> ident \<Rightarrow> 'r option" where
  "get_row t i = map_of t i"

definition add_row :: "ident \<Rightarrow> 'r \<Rightarrow> 'r table \<Rightarrow> 'r table" where
  "add_row k r t = t @ [(k, r)]"

definition set_row :: "ident \<Rightarrow> 'r \<Rightarrow> 'r table \<Rightarrow> 'r table" where
  "set_row i r t = map (\<lambda>(k, r'). (k, if k = i then r else r')) t"

definition del_row :: "ident \<Rightarrow> 'r table \<Rightarrow> 'r table" where
  "del_row i t = filter (\<lambda>(k, _). k \<noteq> i) t"

text \<open>
  Deleting a venue whose \<open>shows\<close> relationship has no delete cascade: SQLAlchemy's
  unit of work first sets \<open>venue_id\<close> to \<open>NULL\<close> in every show of the venue.
\<close>

definition nullify_venue :: "ident \<Rightarrow> show_row table \<Rightarrow> show_row table" where
  "nullify_venue i t =
     map (\<lambda>(k, s). (k, if s_venue_id s = Some i then s\<lparr>s_venue_id := None\<rparr> else s)) t"

text \<open>
  A form value written to an \<open>Integer\<close> foreign-key column: \<open>None\<close> is \<open>NULL\<close>;
  a string goes through \<open>int4in\<close> and then the foreign-key check.
\<close>

definition coerce_key :: "'r table \<Rightarrow> string option \<Rightarrow> db_error + ident option" where
  "coerce_key t v =
     (case v of
        None \<Rightarrow> Inr None
      | Some s \<Rightarrow>
          (case parse_int4 s of
             None \<Rightarrow> Inl Data_error
           | Some i \<Rightarrow> if i \<in> set (map fst t) then Inr (Some i) else Inl Integrity_error))"

subsection \<open>Units of work and commit\<close>

text \<open>
  The changes the handlers make in one session: \<open>db.session.add(Venue(...))\<close>,
  attribute assignments on a loaded \<open>Venue\<close>, \<open>db.session.delete(venue)\<close>, the same
  for \<open>Artist\<close>, and \<open>db.session.add(Show(...))\<close> with the raw form values.
\<close>

datatype change =
    Add_venue venue
  | Set_venue ident venue
  | Remove_venue ident
  | Add_artist artist
  | Set_artist ident artist
  | Add_show "string option" "string option" "string option"

fun commit :: "db \<Rightarrow> change \<Rightarrow> db_error + db" where
  "commit d (Add_venue v) =
     (if \<not> venue_cols_ok v then Inl Data_error
      else if int4_max < next_venue_id d then Inl Data_error
      else Inr (d\<lparr>venue_rows := add_row (next_venue_id d) v (venue_rows d),
                  next_venue_id := next_venue_id d + 1\<rparr>))"
| "commit d (Set_venue i v) =
     (if i \<notin> set (map fst (venue_rows d)) then Inl Stale_data
      else if venue_cols_ok v then Inr (d\<lparr>venue_rows := set_row i v (venue_rows d)\<rparr>)
      else Inl Data_error)"
| "commit d (Remove_venue i) =
     (if i \<notin> set (map fst (venue_rows d)) then Inl Stale_data
      else Inr (d\<lparr>show_rows := nullify_venue i (show_rows d),
                  venue_rows := del_row i (venue_rows d)\<rparr>))"
| "commit d (Add_artist a) =
     (if \<not> artist_cols_ok a then Inl Data_error
      else if int4_max < next_artist_id d then Inl Data_error
      else Inr (d\<lparr>artist_rows := add_row (next_artist_id d) a (artist_rows d),
                  next_artist_id := next_artist_id d + 1\<rparr>))"
| "commit d (Set_artist i a) =
     (if i \<notin> set (map fst (artist_rows d)) then Inl Stale_data
      else if artist_cols_ok a then Inr (d\<lparr>artist_rows := set_row i a (artist_rows d)\<rparr>)
      else Inl Data_error)"
| "commit d (Add_show aid vid date) =
     (case coerce_key (artist_rows d) aid of
        Inl e \<Rightarrow> Inl e
      | Inr ak \<Rightarrow>
          (case coerce_key (venue_rows d) vid of
             Inl e \<Rightarrow> Inl e
           | Inr vk \<Rightarrow>
               (case date of
                  None \<Rightarrow> Inl Integrity_error
                | Some s \<Rightarrow>
                    if \<not> fits 30 s then Inl Data_error
                    else if int4_max < next_show_id d then Inl Data_error
                    else Inr (d\<lparr>show_rows := add_row (next_show_id d)
                                 \<lparr>s_date = s, s_venue_id = vk, s_artist_id = ak\<rparr> (show_rows d),
                                next_show_id := next_show_id d + 1\<rparr>))))"

text \<open>
  \<open>db.session.rollback()\<close> after a failed commit: the rows are as before, but a value
  that \<open>nextval\<close> handed out is not given back. Of the failing inserts only a show's
  reaches the executor: the key strings and the date are converted to their column types
  when the statement is parsed, and the sequence must not be exhausted; then \<open>nextval\<close>
  runs before the \<open>NOT NULL\<close> and foreign-key checks that fail.
\<close>

definition key_parses :: "string option \<Rightarrow> bool" where
  "key_parses v \<longleftrightarrow> (case v of None \<Rightarrow> True | Some s \<Rightarrow> parse_int4 s \<noteq> None)"

definition rollback :: "db \<Rightarrow> change \<Rightarrow> db" where
  "rollback d c =
     (case c of
        Add_show aid vid date \<Rightarrow>
          if key_parses aid \<and> key_parses vid \<and> (case date of None \<Rightarrow> True | Some s \<Rightarrow> fits 30 s) \<and>
             next_show_id d \<le> int4_max
          then d\<lparr>next_show_id := next_show_id d + 1\<rparr> else d
      | _ \<Rightarrow> d)"

subsection \<open>Well-formed databases\<close>

text \<open>
  A table is in strictly increasing key order and every key lies between 1 and the
  table's counter; every stored row satisfies its column constraints, and every show's
  foreign keys point at existing rows.
\<close>

definition table_wf :: "ident \<Rightarrow> 'r table \<Rightarrow> bool" where
  "table_wf nxt t \<longleftrightarrow> sorted_wrt (<) (map fst t) \<and> list_all (\<lambda>k. 0 < k \<and> k < nxt) (map fst t)"

definition wf_db :: "db \<Rightarrow> bool" where
  "wf_db d \<longleftrightarrow>
     table_wf (next_venue_id d) (venue_rows d) \<and>
     table_wf (next_artist_id d) (artist_rows d) \<and>
     table_wf (next_show_id d) (show_rows d) \<and>
     list_all (venue_cols_ok \<circ> snd) (venue_rows d) \<and>
     list_all (artist_cols_ok \<circ> snd) (artist_rows d) \<and>
     list_all (show_ok d \<circ> snd) (show_rows d)"

text \<open>
  The invariant needs positive counters only for the first insertion; a database that
  starts from \<open>init_db\<close> has them. \<open>counters_pos\<close> records it.
\<close>

definition counters_pos :: "db \<Rightarrow> bool" where
  "counters_pos d \<longleftrightarrow> 0 < next_venue_id d \<and> 0 < next_artist_id d \<and> 0 < next_show_id d"

text \<open>
  The key columns are PostgreSQL \<open>integer\<close>s fed by sequences with the same bound, so
  no counter passes one beyond \<open>int4_max\<close>.
\<close>

definition counters_bounded :: "db \<Rightarrow> bool" where
  "counters_bounded d \<longleftrightarrow>
     next_venue_id d \<le> int4_max + 1 \<and> next_artist_id d \<le> int4_max + 1 \<and> next_show_id d \<le> int4_max + 1"

subsection \<open>The abstract tables\<close>

text \<open>What a table promises its clients: a finite map from key to row.\<close>

definition venue_map :: "db \<Rightarrow> ident \<rightharpoonup> venue" where
  "venue_map d = map_of (venue_rows d)"

definition artist_map :: "db \<Rightarrow> ident \<rightharpoonup> artist" where
  "artist_map d = map_of (artist_rows d)"

definition show_map :: "db \<Rightarrow> ident \<rightharpoonup> show_row" where
  "show_map d = map_of (show_rows d)"

text \<open>
  The contract of the \<open>Venue\<close> and \<open>Artist\<close> tables: an insertion stores the row under a
  key \<open>k\<close> chosen by the database, an update replaces the row, a deletion removes it.
\<close>

fun venue_spec :: "(ident \<rightharpoonup> venue) \<Rightarrow> ident \<Rightarrow> change \<Rightarrow> (ident \<rightharpoonup> venue)" where
  "venue_spec m k (Add_venue v) = m(k \<mapsto> v)"
| "venue_spec m k (Set_venue i v) = m(i \<mapsto> v)"
| "venue_spec m k (Remove_venue i) = m(i := None)"
| "venue_spec m k _ = m"

fun artist_spec :: "(ident \<rightharpoonup> artist) \<Rightarrow> ident \<Rightarrow> change \<Rightarrow> (ident \<rightharpoonup> artist)" where
  "artist_spec m k (Add_artist a) = m(k \<mapsto> a)"
| "artist_spec m k (Set_artist i a) = m(i \<mapsto> a)"
| "artist_spec m k _ = m"

subsection \<open>Properties of the table operations\<close>

lemma keys_add_row [simp]: "map fst (add_row k r t) = map fst t @ [k]"
  by (simp add: add_row_def)

lemma keys_set_row [simp]: "map fst (set_row i r t) = map fst t"
  by (induction t) (auto simp: set_row_def)

lemma keys_del_row [simp]: "map fst (del_row i t) = filter (\<lambda>k. k \<noteq> i) (map fst t)"
  by (induction t) (auto simp: del_row_def)

lemma keys_nullify_venue [simp]: "map fst (nullify_venue i t) = map fst t"
  by (induction t) (auto simp: nullify_venue_def)

lemma table_wf_fresh: "table_wf n t \<Longrightarrow> n \<notin> set (map fst t)"
  by (auto simp: table_wf_def list_all_iff)

lemma table_wf_fresh_map_of: "table_wf n t \<Longrightarrow> map_of t n = None"
  using table_wf_fresh [of n t] by (simp add: map_of_eq_None_iff)

lemma table_wf_distinct: "table_wf n t \<Longrightarrow> distinct (map fst t)"
  by (simp add: table_wf_def sorted_wrt_distinct_less)

lemma table_wf_add:
  "table_wf n t \<Longrightarrow> 0 < n \<Longrightarrow> table_wf (n + 1) (add_row n r t)"
  by (auto simp: table_wf_def list_all_iff sorted_wrt_less_snoc)

lemma table_wf_set: "table_wf n t \<Longrightarrow> table_wf n (set_row i r t)"
  by (simp add: table_wf_def)

lemma table_wf_del: "table_wf n t \<Longrightarrow> table_wf n (del_row i t)"
  by (auto simp: table_wf_def list_all_iff sorted_wrt_filter)

lemma table_wf_nullify: "table_wf n t \<Longrightarrow> table_wf n (nullify_venue i t)"
  by (simp add: table_wf_def)

lemma table_wf_init [simp]: "table_wf 1 []"
  by (simp add: table_wf_def)

lemmas table_wf_ops [table_simps] =
  table_wf_add table_wf_set table_wf_del table_wf_nullify

lemma map_of_add_row [table_simps]:
  "table_wf n t \<Longrightarrow> map_of (add_row n r t) = (map_of t)(n \<mapsto> r)"
  unfolding add_row_def by (rule map_of_snoc_fresh [OF table_wf_fresh])

lemma map_of_set_row [table_simps]:
  "map_of (set_row i r t) = (if i \<in> set (map fst t) then (map_of t)(i \<mapsto> r) else map_of t)"
  by (induction t) (auto simp: set_row_def fun_eq_iff)

lemma map_of_set_row_key:
  "i \<in> set (map fst t) \<Longrightarrow> map_of (set_row i r t) = (map_of t)(i \<mapsto> r)"
  by (simp add: map_of_set_row)

lemma map_of_set_row_mem:
  "(i, x) \<in> set t \<Longrightarrow> map_of (set_row i r t) = (map_of t)(i \<mapsto> r)"
  by (rule map_of_set_row_key) force

lemma map_of_del_row [table_simps]:
  "table_wf n t \<Longrightarrow> map_of (del_row i t) = (map_of t)(i := None)"
  by (simp add: del_row_def map_of_filter_key table_wf_distinct)

lemma get_row_del_row_self [simp]: "get_row (del_row i t) i = None"
  by (induction t) (auto simp: get_row_def del_row_def)

lemma fk_ok_add_row: "fk_ok t k \<Longrightarrow> fk_ok (add_row n r t) k"
  by (auto simp: fk_ok_def split: option.splits)

lemma fk_ok_set_row [simp]: "fk_ok (set_row i r t) k = fk_ok t k"
  by (simp only: fk_ok_def keys_set_row)

lemma fk_ok_del_row: "fk_ok (del_row i t) k \<longleftrightarrow> fk_ok t k \<and> k \<noteq> Some i"
  by (auto simp: fk_ok_def split: option.splits)

lemma nullify_venue_rows:
  "(k, s) \<in> set (nullify_venue i t) \<Longrightarrow>
     s_venue_id s \<noteq> Some i \<and> (\<exists>s0. (k, s0) \<in> set t \<and>
       s = (if s_venue_id s0 = Some i then s0\<lparr>s_venue_id := None\<rparr> else s0))"
  by (auto simp: nullify_venue_def split: if_splits)

lemma coerce_key_fk: "coerce_key t v = Inr k \<Longrightarrow> fk_ok t k"
  by (force simp: coerce_key_def fk_ok_def split: option.splits if_splits)

subsection \<open>Commit keeps the database well-formed\<close>

lemma wf_db_init: "wf_db init_db"
  by (simp add: wf_db_def init_db_def)

lemma wf_db_distinct:
  assumes "wf_db d"
  shows "distinct (map fst (venue_rows d))" and "distinct (map fst (artist_rows d))"
    and "distinct (map fst (show_rows d))"
  using assms by (auto simp: wf_db_def intro: table_wf_distinct)

lemma show_ok_mono:
  assumes "show_ok d s"
    and "set (map fst (venue_rows d)) \<subseteq> set (map fst (venue_rows d'))"
    and "set (map fst (artist_rows d)) \<subseteq> set (map fst (artist_rows d'))"
  shows "show_ok d' s"
  using assms by (auto simp: show_ok_def fk_ok_def split: option.splits)

lemma shows_ok_mono:
  assumes "list_all (show_ok d \<circ> snd) t"
    and "set (map fst (venue_rows d)) \<subseteq> set (map fst (venue_rows d'))"
    and "set (map fst (artist_rows d)) \<subseteq> set (map fst (artist_rows d'))"
  shows "list_all (show_ok d' \<circ> snd) t"
  using assms show_ok_mono [of d _ d'] by (auto simp: list_all_iff)

lemma list_all_add_row:
  "list_all (P \<circ> snd) t \<Longrightarrow> P r \<Longrightarrow> list_all (P \<circ> snd) (add_row k r t)"
  by (simp add: add_row_def)

lemma list_all_set_row:
  "list_all (P \<circ> snd) t \<Longrightarrow> P r \<Longrightarrow> list_all (P \<circ> snd) (set_row i r t)"
  by (induction t) (auto simp: set_row_def)

lemma list_all_del_row:
  "list_all (P \<circ> snd) t \<Longrightarrow> list_all (P \<circ> snd) (del_row i t)"
  by (auto simp: del_row_def list_all_iff)

lemmas list_all_row_ops = list_all_add_row list_all_set_row list_all_del_row

lemma shows_ok_remove_venue:
  assumes "list_all (show_ok d \<circ> snd) (show_rows d)"
  shows "list_all (show_ok (d\<lparr>show_rows := nullify_venue i (show_rows d),
                               venue_rows := del_row i (venue_rows d)\<rparr>) \<circ> snd)
           (nullify_venue i (show_rows d))"
  unfolding list_all_iff
proof (intro ballI)
  fix x assume x: "x \<in> set (nullify_venue i (show_rows d))"
  obtain k s where [simp]: "x = (k, s)" by (cases x)
  from x obtain s0 where s0: "(k, s0) \<in> set (show_rows d)"
    and s: "s = (if s_venue_id s0 = Some i then s0\<lparr>s_venue_id := None\<rparr> else s0)"
    and ne: "s_venue_id s \<noteq> Some i"
    using nullify_venue_rows by fastforce
  from assms s0 have "show_ok d s0" by (auto simp: list_all_iff)
  with s ne show "(show_ok (d\<lparr>show_rows := nullify_venue i (show_rows d),
                               venue_rows := del_row i (venue_rows d)\<rparr>) \<circ> snd) x"
    by (cases "s_venue_id s0 = Some i")
      (auto simp: show_ok_def fk_ok_def split: option.splits)
qed

lemma show_ok_new_show:
  assumes "coerce_key (artist_rows d) aid = Inr ak" "coerce_key (venue_rows d) vid = Inr vk"
    and "fits 30 s"
  shows "show_ok d \<lparr>s_date = s, s_venue_id = vk, s_artist_id = ak\<rparr>"
  using coerce_key_fk [OF assms(1)] coerce_key_fk [OF assms(2)] assms(3)
  by (simp add: show_ok_def)

lemma show_ok_frame [simp]:
  "show_ok (d\<lparr>show_rows := t\<rparr>) = show_ok d"
  "show_ok (d\<lparr>next_show_id := n\<rparr>) = show_ok d"
  by (simp_all add: show_ok_def fun_eq_iff)

lemma table_wf_next_pos: "table_wf n t \<Longrightarrow> 0 < n \<or> t = []"
  by (cases t) (auto simp: table_wf_def)

lemma wf_db_next_pos:
  assumes "wf_db d"
  shows "0 < next_venue_id d \<or> venue_rows d = []"
    and "0 < next_artist_id d \<or> artist_rows d = []"
    and "0 < next_show_id d \<or> show_rows d = []"
  using assms table_wf_next_pos by (auto simp: wf_db_def)

lemma commit_counters_pos:
  "counters_pos d \<Longrightarrow> commit d c = Inr d' \<Longrightarrow> counters_pos d'"
  by (cases c) (auto simp: counters_pos_def split: if_splits sum.splits option.splits)

lemma table_wf_le: "table_wf n t \<Longrightarrow> n \<le> m \<Longrightarrow> table_wf m t"
  by (auto simp: table_wf_def list_all_iff)

lemma commit_counters_bounded:
  "counters_bounded d \<Longrightarrow> commit d c = Inr d' \<Longrightarrow> counters_bounded d'"
  by (cases c) (auto simp: counters_bounded_def split: if_splits sum.splits option.splits)

lemma rollback_rows [simp]:
  "venue_rows (rollback d c) = venue_rows d" "artist_rows (rollback d c) = artist_rows d"
  "show_rows (rollback d c) = show_rows d"
  by (simp_all add: rollback_def split: change.splits)

lemma rollback_not_show [simp]:
  "rollback d (Add_venue v) = d" "rollback d (Set_venue i v) = d" "rollback d (Remove_venue i) = d"
  "rollback d (Add_artist a) = d" "rollback d (Set_artist i a) = d"
  by (simp_all add: rollback_def)

lemma rollback_invariants:
  assumes "wf_db d" and "counters_pos d" and "counters_bounded d"
  shows "wf_db (rollback d c) \<and> counters_pos (rollback d c) \<and> counters_bounded (rollback d c)"
proof (cases "rollback d c = d")
  case True with assms show ?thesis by simp
next
  case False
  then have r: "rollback d c = d\<lparr>next_show_id := next_show_id d + 1\<rparr>"
    and le: "next_show_id d \<le> int4_max"
    by (auto simp: rollback_def split: change.splits if_splits)
  from assms(1) have "table_wf (next_show_id d + 1) (show_rows d)"
    by (auto simp: wf_db_def intro: table_wf_le)
  with assms le show ?thesis
    by (simp add: r wf_db_def counters_pos_def counters_bounded_def)
qed

text \<open>Every successful commit keeps the database well-formed.\<close>

theorem commit_wf:
  assumes "wf_db d" and "counters_pos d" and "commit d c = Inr d'"
  shows "wf_db d'"
proof (cases c)
  case (Add_venue v)
  with assms show ?thesis
    by (auto simp: wf_db_def counters_pos_def table_wf_add list_all_add_row
        intro: shows_ok_mono split: if_splits)
next
  case (Set_venue i v)
  with assms show ?thesis
    by (auto simp: wf_db_def table_wf_set list_all_set_row intro: shows_ok_mono split: if_splits)
next
  case (Remove_venue i)
  with assms show ?thesis
    by (auto simp: wf_db_def table_wf_del table_wf_nullify list_all_del_row shows_ok_remove_venue
        split: if_splits)
next
  case (Add_artist a)
  with assms show ?thesis
    by (auto simp: wf_db_def counters_pos_def table_wf_add list_all_add_row
        intro: shows_ok_mono split: if_splits)
next
  case (Set_artist i a)
  with assms show ?thesis
    by (auto simp: wf_db_def table_wf_set list_all_set_row intro: shows_ok_mono split: if_splits)
next
  case (Add_show aid vid date)
  with assms(3) obtain ak vk s where
    ak: "coerce_key (artist_rows d) aid = Inr ak" and vk: "coerce_key (venue_rows d) vid = Inr vk"
    and s: "date = Some s" "fits 30 s"
    and d': "d' = d\<lparr>show_rows := add_row (next_show_id d)
                   \<lparr>s_date = s, s_venue_id = vk, s_artist_id = ak\<rparr> (show_rows d),
                 next_show_id := next_show_id d + 1\<rparr>"
    by (auto split: sum.splits option.splits if_splits)
  have "show_ok d \<lparr>s_date = s, s_venue_id = vk, s_artist_id = ak\<rparr>"
    using ak vk s(2) by (rule show_ok_new_show)
  with assms(1,2) d' show ?thesis
    by (auto simp: wf_db_def counters_pos_def table_wf_add list_all_add_row)
qed

subsection \<open>Commit refines the abstract tables\<close>



end
