(* ===== verification/Dates.thy ===== *)
theory Dates
  imports Prelude
begin

text \<open>
  Python's \<open>datetime\<close> values and their text form \<open>str(datetime.now())\<close>, against which
  \<^verbatim>\<open>app.py\<close> compares the stored show dates (lines 151 and 267). \<open>str\<close> of a datetime is
  \<open>isoformat(' ')\<close>: the fields zero-padded to 4, 2, 2, 2, 2 and 2 digits, with
  \<open>.ffffff\<close> appended only when the microseconds are not 0. The main result is that
  Python's string order on these texts is the chronological order of the datetimes.
\<close>

subsection \<open>Zero-padded decimals\<close>

text \<open>\<open>'%0*d' % (w, n)\<close> for \<open>n < 10 ^ w\<close>: the last \<open>w\<close> decimal digits, most significant first.\<close>

definition digit_char :: "nat \<Rightarrow> char" where
  "digit_char n = char_of (48 + n)"

fun zpad :: "nat \<Rightarrow> nat \<Rightarrow> string" where
  "zpad 0 n = []"
| "zpad (Suc w) n = digit_char (n div 10 ^ w mod 10) # zpad w n"

subsection \<open>Datetimes and their text\<close>

text \<open>The fields of a \<open>datetime.datetime\<close> (no time zone: \<open>datetime.now()\<close> is naive).\<close>

record py_datetime =
  pd_year :: nat
  pd_month :: nat
  pd_day :: nat
  pd_hour :: nat
  pd_minute :: nat
  pd_second :: nat
  pd_microsecond :: nat

text \<open>The constructor's range checks: \<open>MINYEAR\<close> to \<open>MAXYEAR\<close>, Gregorian month lengths.\<close>

definition is_leap :: "nat \<Rightarrow> bool" where
  "is_leap y \<longleftrightarrow> y mod 4 = 0 \<and> (y mod 100 \<noteq> 0 \<or> y mod 400 = 0)"

definition days_in_month :: "nat \<Rightarrow> nat \<Rightarrow> nat" where
  "days_in_month y m =
     (if m = 2 then (if is_leap y then 29 else 28) else if m \<in> {4, 6, 9, 11} then 30 else 31)"

definition valid_datetime :: "py_datetime \<Rightarrow> bool" where
  "valid_datetime t \<longleftrightarrow>
     1 \<le> pd_year t \<and> pd_year t \<le> 9999 \<and> 1 \<le> pd_month t \<and> pd_month t \<le> 12 \<and>
     1 \<le> pd_day t \<and> pd_day t \<le> days_in_month (pd_year t) (pd_month t) \<and>
     pd_hour t < 24 \<and> pd_minute t < 60 \<and> pd_second t < 60 \<and> pd_microsecond t < 1000000"

text \<open>\<open>datetime.__str__\<close>, that is \<open>isoformat(sep=' ')\<close>.\<close>

definition py_str_datetime :: "py_datetime \<Rightarrow> string" where
  "py_str_datetime t =
     zpad 4 (pd_year t) @ CHR ''-'' # zpad 2 (pd_month t) @ CHR ''-'' # zpad 2 (pd_day t) @
     CHR '' '' # zpad 2 (pd_hour t) @ CHR '':'' # zpad 2 (pd_minute t) @ CHR '':'' #
     zpad 2 (pd_second t) @
     (if pd_microsecond t = 0 then [] else CHR ''.'' # zpad 6 (pd_microsecond t))"

text \<open>Chronological order: the fields compared from the year down to the microsecond.\<close>

definition dt_key :: "py_datetime \<Rightarrow> nat list" where
  "dt_key t = [pd_year t, pd_month t, pd_day t, pd_hour t, pd_minute t, pd_second t,
               pd_microsecond t]"

subsection \<open>String order is chronological order\<close>

lemma length_zpad [simp]: "length (zpad w n) = w"
  by (induction w) simp_all

lemma zpad_numeral:
  "zpad (numeral w) n = digit_char (n div 10 ^ pred_numeral w mod 10) # zpad (pred_numeral w) n"
  using zpad.simps(2) [of "pred_numeral w" n] by (simp only: numeral_eq_Suc [of w])

lemma digit_char_digits:
  "digit_char 0 = CHR ''0''" "digit_char 1 = CHR ''1''" "digit_char 2 = CHR ''2''"
  "digit_char 3 = CHR ''3''" "digit_char 4 = CHR ''4''" "digit_char 5 = CHR ''5''"
  "digit_char 6 = CHR ''6''" "digit_char 7 = CHR ''7''" "digit_char 8 = CHR ''8''"
  "digit_char 9 = CHR ''9''" "digit_char (Suc 0) = CHR ''1''"
  by code_simp+

lemma digit_char_less [simp]:
  "a < 10 \<Longrightarrow> b < 10 \<Longrightarrow> digit_char a < digit_char b \<longleftrightarrow> a < b"
  by (simp add: digit_char_def less_char_def)

lemma digit_char_eq [simp]:
  "a < 10 \<Longrightarrow> b < 10 \<Longrightarrow> digit_char a = digit_char b \<longleftrightarrow> a = b"
  by (auto simp: digit_char_def dest: arg_cong [of _ _ of_char])

lemma zpad_mod: "zpad w (n mod 10 ^ w) = zpad w n"
proof (induction w arbitrary: n)
  case 0 then show ?case by simp
next
  case (Suc w)
  have "n mod 10 ^ Suc w div 10 ^ w mod 10 = n div 10 ^ w mod 10"
    by (simp only: power_Suc2 mod_mult2_eq) simp
  moreover have "zpad w (n mod 10 ^ Suc w) = zpad w n"
  proof -
    have "10 ^ w dvd (10 :: nat) ^ Suc w" by (simp add: le_imp_power_dvd)
    then have "n mod 10 ^ Suc w mod 10 ^ w = n mod 10 ^ w" by (rule mod_mod_cancel)
    then show ?thesis using Suc [of "n mod 10 ^ Suc w"] Suc [of n] by simp
  qed
  ultimately show ?case by simp
qed

lemma div_mod_less_iff:
  fixes n m p :: nat
  shows "n < m \<longleftrightarrow> n div p < m div p \<or> n div p = m div p \<and> n mod p < m mod p"
proof -
  have n: "n div p * p + n mod p = n" and m: "m div p * p + m mod p = m"
    by (rule div_mult_mod_eq)+
  have mono: "a \<le> b \<Longrightarrow> a div p \<le> b div p" for a b :: nat by (rule div_le_mono)
  show ?thesis
  proof
    assume "n < m"
    then have "n div p \<le> m div p" by (intro mono) simp
    moreover have "n mod p < m mod p" if "n div p = m div p"
      using that n m \<open>n < m\<close> by (metis add_less_cancel_left)
    ultimately show "n div p < m div p \<or> n div p = m div p \<and> n mod p < m mod p" by linarith
  next
    assume "n div p < m div p \<or> n div p = m div p \<and> n mod p < m mod p"
    then show "n < m"
    proof
      assume "n div p < m div p"
      then show "n < m" using mono [of m n] by (meson leI not_le)
    next
      assume "n div p = m div p \<and> n mod p < m mod p"
      then show "n < m" using n m by (metis add_less_cancel_left)
    qed
  qed
qed

lemma zpad_Suc_bounded:
  "n < 10 ^ Suc w \<Longrightarrow> zpad (Suc w) n = digit_char (n div 10 ^ w) # zpad w (n mod 10 ^ w)"
  by (simp add: zpad_mod less_mult_imp_div_less mult.commute)

lemma zpad_less:
  "n < 10 ^ w \<Longrightarrow> m < 10 ^ w \<Longrightarrow> zpad w n < zpad w m \<longleftrightarrow> n < m"
proof (induction w arbitrary: n m)
  case 0 then show ?case by simp
next
  case (Suc w)
  have dn: "n div 10 ^ w < 10" and dm: "m div 10 ^ w < 10"
    using Suc.prems by (simp_all add: less_mult_imp_div_less mult.commute)
  have "zpad w n < zpad w m \<longleftrightarrow> n mod 10 ^ w < m mod 10 ^ w"
    using Suc.IH [of "n mod 10 ^ w" "m mod 10 ^ w"] by (simp add: zpad_mod)
  with dn dm Suc.prems show ?case
    by (simp add: zpad_Suc_bounded div_mod_less_iff [of n m "10 ^ w"])
qed

lemma zpad_eq:
  "n < 10 ^ w \<Longrightarrow> m < 10 ^ w \<Longrightarrow> zpad w n = zpad w m \<longleftrightarrow> n = m"
  using zpad_less [of n w m] zpad_less [of m w n] by (metis less_irrefl linorder_cases)

lemma append_less_same_length:
  fixes a b :: "'a :: order list"
  shows "length a = length b \<Longrightarrow> a @ x < b @ y \<longleftrightarrow> a < b \<or> a = b \<and> x < y"
proof (induction a arbitrary: b)
  case Nil then show ?case by simp
next
  case (Cons c a)
  then obtain d b' where "b = d # b'" and "length a = length b'" by (cases b) auto
  with Cons.IH [of b'] show ?case by auto
qed

lemma days_in_month_le: "days_in_month y m \<le> 31"
  by (simp add: days_in_month_def)

lemma valid_datetime_bounds:
  assumes "valid_datetime t"
  shows "pd_year t < 10 ^ 4" "pd_month t < 10 ^ 2" "pd_day t < 10 ^ 2" "pd_hour t < 10 ^ 2"
    "pd_minute t < 10 ^ 2" "pd_second t < 10 ^ 2" "pd_microsecond t < 10 ^ 6"
  using assms days_in_month_le [of "pd_year t" "pd_month t"] by (simp_all add: valid_datetime_def)

lemma frac_less:
  "a < 10 ^ 6 \<Longrightarrow> b < 10 ^ 6 \<Longrightarrow>
   (if a = 0 then [] else CHR ''.'' # zpad 6 a) < (if b = 0 then [] else CHR ''.'' # zpad 6 b)
   \<longleftrightarrow> a < b"
  by (simp add: zpad_less)

lemma frac_eq:
  "a < 10 ^ 6 \<Longrightarrow> b < 10 ^ 6 \<Longrightarrow>
   (if a = 0 then [] else CHR ''.'' # zpad 6 a) = (if b = 0 then [] else CHR ''.'' # zpad 6 b)
   \<longleftrightarrow> a = b"
  by (simp add: zpad_eq)

lemma py_str_datetime_less:
  assumes "valid_datetime n" and "valid_datetime t"
  shows "py_str_datetime n < py_str_datetime t \<longleftrightarrow> dt_key n < dt_key t"
  using valid_datetime_bounds [OF assms(1)] valid_datetime_bounds [OF assms(2)]
  by (simp add: py_str_datetime_def dt_key_def append_less_same_length zpad_less zpad_eq
      frac_less del: power_numeral)

lemma py_str_datetime_eq:
  assumes "valid_datetime n" and "valid_datetime t"
  shows "py_str_datetime n = py_str_datetime t \<longleftrightarrow> dt_key n = dt_key t"
proof -
  have app_eq: "length a = length b \<Longrightarrow> a @ x = b @ y \<longleftrightarrow> a = b \<and> x = y" for a b x y :: string
    by simp
  show ?thesis
    using valid_datetime_bounds [OF assms(1)] valid_datetime_bounds [OF assms(2)]
    by (simp add: py_str_datetime_def dt_key_def app_eq zpad_eq frac_eq del: power_numeral)
qed

text \<open>
  C24. For valid datetimes, Python's comparison of their \<open>str\<close> texts (the order of
  \<^verbatim>\<open>show.date >= str(datetime.now())\<close>) is their chronological order.
\<close>

theorem py_str_datetime_le:
  assumes "valid_datetime n" and "valid_datetime t"
  shows "py_str_datetime n \<le> py_str_datetime t \<longleftrightarrow> dt_key n \<le> dt_key t"
  using py_str_datetime_less [OF assms] py_str_datetime_eq [OF assms]
  by (simp add: order_le_less)

text \<open>
  A date typed without zero padding is compared character by character: 30 September
  2024, written \<open>2024-9-30 12:00:00\<close>, counts as later than 1 October 2024.
\<close>

lemma unpadded_date_order:
  "py_str_datetime \<lparr>pd_year = 2024, pd_month = 10, pd_day = 1, pd_hour = 0, pd_minute = 0,
      pd_second = 0, pd_microsecond = 0\<rparr> \<le> ''2024-9-30 12:00:00'' \<and>
   [2024, 9, 30, 12, 0, 0, 0] < dt_key \<lparr>pd_year = 2024, pd_month = 10, pd_day = 1, pd_hour = 0,
      pd_minute = 0, pd_second = 0, pd_microsecond = 0\<rparr>"
proof -
  have "py_str_datetime \<lparr>pd_year = 2024, pd_month = 10, pd_day = 1, pd_hour = 0, pd_minute = 0,
      pd_second = 0, pd_microsecond = 0\<rparr> = ''2024-10-01 00:00:00''"
    by (simp add: py_str_datetime_def zpad_numeral digit_char_digits)
  moreover have "''2024-10-01 00:00:00'' \<le> ''2024-9-30 12:00:00''" by (simp add: less_char_def)
  moreover have "[2024, 9, 30, 12, 0, 0, 0] < dt_key \<lparr>pd_year = 2024, pd_month = 10, pd_day = 1,
      pd_hour = 0, pd_minute = 0, pd_second = 0, pd_microsecond = 0\<rparr>"
    by (simp add: dt_key_def)
  ultimately show ?thesis by (simp only:)
qed

end
