(* ===== verification/Query.thy ===== *)
theory Query
  imports Model Dates "HOL-Library.Multiset" "HOL-Library.While_Combinator"
begin

text \<open>
  The read-only handlers of \<^verbatim>\<open>app.py\<close>: the home page digest (\<open>index\<close>, lines 95-99),
  the venue list grouped by city and state (\<open>venues\<close>, lines 104-129), the venue and
  artist search (lines 131-139, 245-254), the venue and artist pages with their shows
  split into past and upcoming (lines 141-159, 256-274), the artist and show lists
  (lines 238-243, 424-430) and the pages that load a row for a form (lines 206-210,
  279-296, 328-346). Each is a function of the database; a Python exception is an
  \<open>Inl\<close> value. SQL queries without \<open>ORDER BY\<close> return rows in table (key) order.
  The lemmas show the grouping loop against its reference and its termination, the
  partitions of the venues page and of a venue's shows (also against the clock, through
  \<open>Dates\<close>), search as substring match, and the home page's latest rows.
\<close>

subsection \<open>Home page\<close>

text \<open>\<open>Model.query.order_by(db.desc(Model.id)).limit(n)\<close>.\<close>

definition latest :: "nat \<Rightarrow> 'r table \<Rightarrow> 'r table" where
  "latest n t = take n (sort_key (\<lambda>(k, _). - k) t)"

definition index :: "db \<Rightarrow> venue table \<times> artist table" where
  "index d = (latest 10 (venue_rows d), latest 10 (artist_rows d))"

subsection \<open>Venues grouped by area\<close>

text \<open>The dictionary \<open>{'city': ..., 'state': ..., 'venues': [{'id': ..., 'name': ...}, ...]}\<close>.\<close>

record area =
  ar_city :: string
  ar_state :: string
  ar_venues :: "(ident \<times> string) list"

text \<open>\<open>Venue.query.filter_by(city=c, state=s)\<close>, each row as \<open>{'id', 'name'}\<close>.\<close>

definition area_venues :: "venue table \<Rightarrow> string \<Rightarrow> string \<Rightarrow> (ident \<times> string) list" where
  "area_venues t c s = map (\<lambda>(k, v). (k, v_name v)) (filter (\<lambda>(_, v). v_city v = c \<and> v_state v = s) t)"

definition area_of :: "venue table \<Rightarrow> venue \<Rightarrow> area" where
  "area_of t v = \<lparr>ar_city = v_city v, ar_state = v_state v,
                   ar_venues = area_venues t (v_city v) (v_state v)\<rparr>"

text \<open>The \<open>for venue in get_all_data\<close> loop with its \<open>if areas_list not in data\<close> test.\<close>

fun venues_loop :: "venue table \<Rightarrow> venue table \<Rightarrow> area list \<Rightarrow> area list" where
  "venues_loop t [] data = data"
| "venues_loop t ((_, v) # vs) data =
     (let a = area_of t v in venues_loop t vs (if a \<in> set data then data else data @ [a]))"

definition venues :: "db \<Rightarrow> area list" where
  "venues d = venues_loop (venue_rows d) (venue_rows d) []"

text \<open>
  The same loop as Python runs it: an iterator over the query result and the list
  \<open>data\<close>, stepped while the iterator has a row left.
\<close>

definition venues_step :: "venue table \<Rightarrow> venue table \<times> area list \<Rightarrow> venue table \<times> area list" where
  "venues_step t s =
     (case s of (vs, data) \<Rightarrow>
        (let a = area_of t (snd (hd vs)) in (tl vs, if a \<in> set data then data else data @ [a])))"

definition venues_while :: "venue table \<Rightarrow> area list option" where
  "venues_while t = map_option snd (while_option (\<lambda>(vs, _). vs \<noteq> []) (venues_step t) (t, []))"

subsection \<open>Search\<close>

text \<open>
  \<open>Model.query.filter(Model.name.ilike('%{}%'.format(search_term)))\<close> and its
  \<open>count()\<close>; \<open>search_term\<close> is \<open>request.form.get('search_term')\<close>.
\<close>

definition search_venues :: "db \<Rightarrow> string option \<Rightarrow> venue table \<times> nat" where
  "search_venues d term =
     (let r = filter (\<lambda>(_, v). ilike (v_name v) (contains_pattern term)) (venue_rows d)
      in (r, length r))"

definition search_artists :: "db \<Rightarrow> string option \<Rightarrow> artist table \<times> nat" where
  "search_artists d term =
     (let r = filter (\<lambda>(_, a). ilike (a_name a) (contains_pattern term)) (artist_rows d)
      in (r, length r))"

subsection \<open>Venue and artist pages\<close>

text \<open>
  The loop \<open>for show in data.shows\<close>: a show is upcoming when its date string is at
  least \<open>str(datetime.now())\<close> in Python's string order; each show is inserted at
  the front of its list. The result is \<open>(upcoming_shows, past_shows)\<close>.
\<close>

definition partition_shows :: "string \<Rightarrow> show_row table \<Rightarrow> show_row table \<times> show_row table" where
  "partition_shows now ss =
     foldl (\<lambda>(up, past) x. if s_date (snd x) \<ge> now then (x # up, past) else (up, x # past))
       ([], []) ss"

text \<open>The page's data: the row, \<open>genres.split(' ')\<close>, both show lists and their lengths.\<close>

record 'e detail =
  dt_entity :: 'e
  dt_genres :: "string list"
  dt_past_shows :: "show_row table"
  dt_upcoming_shows :: "show_row table"
  dt_past_count :: nat
  dt_upcoming_count :: nat

definition detail_of :: "'e \<Rightarrow> string \<Rightarrow> string \<Rightarrow> show_row table \<Rightarrow> 'e detail" where
  "detail_of e genres now ss =
     (let (up, past) = partition_shows now ss
      in \<lparr>dt_entity = e, dt_genres = py_split CHR '' '' genres, dt_past_shows = past,
          dt_upcoming_shows = up, dt_past_count = length past, dt_upcoming_count = length up\<rparr>)"

text \<open>\<open>venue.shows\<close> and \<open>artist.shows\<close>: the shows whose foreign key is the row's key.\<close>

definition venue_shows :: "db \<Rightarrow> ident \<Rightarrow> show_row table" where
  "venue_shows d i = filter (\<lambda>(_, s). s_venue_id s = Some i) (show_rows d)"

definition artist_shows :: "db \<Rightarrow> ident \<Rightarrow> show_row table" where
  "artist_shows d i = filter (\<lambda>(_, s). s_artist_id s = Some i) (show_rows d)"

text \<open>
  \<open>Venue.query.get(venue_id)\<close> is \<open>None\<close> for an unknown key, and \<open>data.genres\<close>
  then raises \<open>AttributeError\<close>.
\<close>

definition show_venue :: "db \<Rightarrow> string \<Rightarrow> ident \<Rightarrow> py_exc + venue detail" where
  "show_venue d now i =
     (case get_row (venue_rows d) i of
        None \<Rightarrow> Inl AttributeError
      | Some v \<Rightarrow> Inr (detail_of v (v_genres v) now (venue_shows d i)))"

definition show_artist :: "db \<Rightarrow> string \<Rightarrow> ident \<Rightarrow> py_exc + artist detail" where
  "show_artist d now i =
     (case get_row (artist_rows d) i of
        None \<Rightarrow> Inl AttributeError
      | Some a \<Rightarrow> Inr (detail_of a (a_genres a) now (artist_shows d i)))"

subsection \<open>Lists and form pages\<close>

definition artists :: "db \<Rightarrow> artist table" where
  "artists d = artist_rows d"

definition shows_view :: "db \<Rightarrow> show_row table" where
  "shows_view d = show_rows d"

text \<open>The confirmation page renders whatever \<open>Venue.query.get\<close> returns, \<open>None\<close> included.\<close>

definition delete_venue :: "db \<Rightarrow> ident \<Rightarrow> venue option" where
  "delete_venue d i = get_row (venue_rows d) i"

text \<open>The edit forms copy the row's fields into the form; \<open>None.name\<close> raises.\<close>

definition edit_venue :: "db \<Rightarrow> ident \<Rightarrow> py_exc + venue" where
  "edit_venue d i = (case get_row (venue_rows d) i of None \<Rightarrow> Inl AttributeError | Some v \<Rightarrow> Inr v)"

definition edit_artist :: "db \<Rightarrow> ident \<Rightarrow> py_exc + artist" where
  "edit_artist d i = (case get_row (artist_rows d) i of None \<Rightarrow> Inl AttributeError | Some a \<Rightarrow> Inr a)"

subsection \<open>The grouping loop against its reference\<close>

definition area_at :: "venue table \<Rightarrow> string \<times> string \<Rightarrow> area" where
  "area_at t l = \<lparr>ar_city = fst l, ar_state = snd l, ar_venues = area_venues t (fst l) (snd l)\<rparr>"

definition location :: "ident \<times> venue \<Rightarrow> string \<times> string" where
  "location x = (v_city (snd x), v_state (snd x))"

lemma venues_loop_append_new:
  "venues_loop t vs data = append_new data (map (area_of t \<circ> snd) vs)"
  by (induction t vs data rule: venues_loop.induct) (simp_all add: Let_def)

lemma area_of_at: "area_of t \<circ> snd = area_at t \<circ> location"
  by (simp add: fun_eq_iff area_of_def area_at_def location_def)

lemma inj_area_at: "inj (area_at t)"
  by (auto simp: inj_def area_at_def prod_eq_iff)

text \<open>
  The loop of \<open>venues()\<close> computes one area per distinct (city, state) pair of the
  table, in the order in which the pairs first occur, each carrying the venues of that
  pair. The reference uses \<open>uniq\<close>, order-preserving deduplication.
\<close>

lemma venues_loop_reference:
  "venues_loop t t [] = map (area_at t) (uniq (map location t))"
proof -
  have inj: "inj_on (area_at t) (set (map location t))"
    using inj_area_at by (rule inj_on_subset) simp
  have "venues_loop t t [] = uniq (map (area_at t) (map location t))"
    by (simp add: venues_loop_append_new append_new_uniq area_of_at)
  also have "\<dots> = map (area_at t) (uniq (map location t))"
    by (rule uniq_map_inj [OF inj])
  finally show ?thesis .
qed

text \<open>C6. The loop of the venues page, which appends an area when its city and state have not been seen and otherwise adds the venue to the area already listed, equals the reference definition: the distinct locations in order of first occurrence, each with all venues of that location.\<close>

theorem venues_eq_reference:
  "venues d = map (area_at (venue_rows d)) (uniq (map location (venue_rows d)))"
  unfolding venues_def by (rule venues_loop_reference)

lemma set_area_venues:
  "set (area_venues t c s) = {(k, v_name v) | k v. (k, v) \<in> set t \<and> v_city v = c \<and> v_state v = s}"
  by (auto simp: area_venues_def)

lemma distinct_area_venues:
  "distinct (map fst t) \<Longrightarrow> distinct (map fst (area_venues t c s))"
proof -
  have "map fst (area_venues t c s) = map fst (filter (\<lambda>(_, v). v_city v = c \<and> v_state v = s) t)"
    unfolding area_venues_def by (induction t) auto
  then show "distinct (map fst t) \<Longrightarrow> ?thesis" by (simp add: distinct_map_filter)
qed

lemma set_venues:
  "set (venues d) = area_at (venue_rows d) ` location ` set (venue_rows d)"
  by (simp add: venues_def venues_loop_reference image_image)

lemma areas_distinct:
  "distinct (map (\<lambda>a. (ar_city a, ar_state a)) (venues d))"
proof -
  have "map (\<lambda>a. (ar_city a, ar_state a)) (venues d) = uniq (map location (venue_rows d))"
    by (simp add: venues_def venues_loop_reference area_at_def comp_def)
  then show ?thesis by simp
qed

lemma unique_row_key:
  "distinct (map fst t) \<Longrightarrow> (k, v) \<in> set t \<Longrightarrow> (k, v') \<in> set t \<Longrightarrow> v' = v"
  by (metis eq_key_imp_eq_value)

text \<open>
  C7. Every venue of the table is listed in exactly one area, the one of its own city and
  state; an area lists each of its venues once and every venue of its city and state.
\<close>

theorem venues_partition:
  assumes "wf_db d" and "(k, v) \<in> set (venue_rows d)"
  shows "(\<exists>!a. a \<in> set (venues d) \<and> (k, v_name v) \<in> set (ar_venues a)) \<and>
         (\<forall>a \<in> set (venues d). (k, v_name v) \<in> set (ar_venues a) \<longrightarrow>
            ar_city a = v_city v \<and> ar_state a = v_state v \<and> distinct (map fst (ar_venues a)) \<and>
            (\<forall>(k', w) \<in> set (venue_rows d). v_city w = v_city v \<and> v_state w = v_state v \<longrightarrow>
               (k', v_name w) \<in> set (ar_venues a)))"
proof -
  let ?t = "venue_rows d"
  have dist: "distinct (map fst ?t)"
    using assms(1) by (simp add: wf_db_distinct)
  have own: "ar_city a = v_city v \<and> ar_state a = v_state v"
    if "a \<in> set (venues d)" and "(k, v_name v) \<in> set (ar_venues a)" for a
  proof -
    from that(1) obtain l where a: "a = area_at ?t l" by (auto simp: set_venues)
    with that(2) obtain w where kw: "(k, w) \<in> set ?t" and "v_city w = fst l" "v_state w = snd l"
      by (auto simp: area_at_def area_venues_def)
    moreover have "w = v" using dist assms(2) kw by (rule unique_row_key)
    ultimately show ?thesis using a by (simp add: area_at_def)
  qed
  have each: "distinct (map fst (ar_venues a)) \<and>
      (\<forall>(k', w) \<in> set ?t. v_city w = ar_city a \<and> v_state w = ar_state a \<longrightarrow>
         (k', v_name w) \<in> set (ar_venues a))" if "a \<in> set (venues d)" for a
    using that dist by (auto simp: set_venues area_at_def distinct_area_venues set_area_venues)
  let ?a = "area_at ?t (location (k, v))"
  have a_in: "?a \<in> set (venues d) \<and> (k, v_name v) \<in> set (ar_venues ?a)"
    using assms(2) by (force simp: set_venues area_at_def location_def set_area_venues)
  moreover have "b = ?a" if "b \<in> set (venues d) \<and> (k, v_name v) \<in> set (ar_venues b)" for b
  proof -
    from that obtain l where b: "b = area_at ?t l" by (auto simp: set_venues)
    from that have "ar_city b = v_city v \<and> ar_state b = v_state v" by (intro own) simp_all
    with b have "l = location (k, v)" by (simp add: area_at_def location_def prod_eq_iff)
    with b show ?thesis by simp
  qed
  ultimately have "\<exists>!a. a \<in> set (venues d) \<and> (k, v_name v) \<in> set (ar_venues a)" by blast
  moreover have "ar_city a = v_city v \<and> ar_state a = v_state v \<and> distinct (map fst (ar_venues a)) \<and>
      (\<forall>(k', w) \<in> set ?t. v_city w = v_city v \<and> v_state w = v_state v \<longrightarrow>
         (k', v_name w) \<in> set (ar_venues a))"
    if "a \<in> set (venues d)" and "(k, v_name v) \<in> set (ar_venues a)" for a
    using own [OF that] each [OF that(1)] by simp
  ultimately show ?thesis by blast
qed

subsection \<open>Shows split into past and upcoming\<close>

text \<open>No show refers to a key the venue table has not handed out yet.\<close>

lemma venue_shows_fresh:
  assumes "wf_db d"
  shows "venue_shows d (next_venue_id d) = []"
proof -
  have "s_venue_id s \<noteq> Some (next_venue_id d)" if "(k, s) \<in> set (show_rows d)" for k s
  proof -
    from assms that have "fk_ok (venue_rows d) (s_venue_id s)"
      by (auto simp: wf_db_def list_all_iff show_ok_def)
    moreover have "next_venue_id d \<notin> set (map fst (venue_rows d))"
      using assms unfolding wf_db_def by (blast dest: table_wf_fresh)
    ultimately show ?thesis by (auto simp: fk_ok_def)
  qed
  then show ?thesis by (force simp: venue_shows_def filter_empty_conv)
qed

lemma detail_of_Nil:
  "detail_of e g now [] =
     \<lparr>dt_entity = e, dt_genres = py_split CHR '' '' g, dt_past_shows = [], dt_upcoming_shows = [],
      dt_past_count = 0, dt_upcoming_count = 0\<rparr>"
  by (simp add: detail_of_def partition_shows_def)


lemma partition_shows_eq:
  "partition_shows now ss =
     (rev (filter (\<lambda>x. s_date (snd x) \<ge> now) ss), rev (filter (\<lambda>x. \<not> s_date (snd x) \<ge> now) ss))"
  unfolding partition_shows_def by (simp add: foldl_push_front_partition)

lemma detail_of_eq:
  "detail_of e g now ss =
     \<lparr>dt_entity = e, dt_genres = py_split CHR '' '' g,
      dt_past_shows = rev (filter (\<lambda>x. \<not> s_date (snd x) \<ge> now) ss),
      dt_upcoming_shows = rev (filter (\<lambda>x. s_date (snd x) \<ge> now) ss),
      dt_past_count = length (filter (\<lambda>x. \<not> s_date (snd x) \<ge> now) ss),
      dt_upcoming_count = length (filter (\<lambda>x. s_date (snd x) \<ge> now) ss)\<rparr>"
  by (simp add: detail_of_def partition_shows_eq)

lemma detail_of_partition:
  "dt_upcoming_shows (detail_of e g now ss) = rev (filter (\<lambda>x. s_date (snd x) \<ge> now) ss) \<and>
   dt_past_shows (detail_of e g now ss) = rev (filter (\<lambda>x. s_date (snd x) < now) ss) \<and>
   dt_past_count (detail_of e g now ss) + dt_upcoming_count (detail_of e g now ss) = length ss"
proof -
  have lt: "(\<lambda>x. \<not> s_date (snd x) \<ge> now) = (\<lambda>x. s_date (snd x) < now)"
    by (auto simp: fun_eq_iff not_le)
  have "dt_past_count (detail_of e g now ss) + dt_upcoming_count (detail_of e g now ss) = length ss"
    using length_filter_split [of "\<lambda>x. s_date (snd x) \<ge> now" ss] by (simp add: detail_of_eq)
  then show ?thesis by (simp add: detail_of_eq lt)
qed

lemma show_venue_Inr:
  "show_venue d now i = Inr p \<Longrightarrow>
   \<exists>v. get_row (venue_rows d) i = Some v \<and> p = detail_of v (v_genres v) now (venue_shows d i)"
  by (auto simp: show_venue_def split: option.splits)

text \<open>
  C8. A venue page splits the venue's shows by the string comparison with the current
  time: the upcoming list holds exactly the shows dated at or after it, the past list
  the others, each newest-inserted first, and the two counts add up to the number of
  the venue's shows.
\<close>

theorem show_venue_partition:
  assumes "show_venue d now i = Inr p"
  shows "dt_upcoming_shows p = rev (filter (\<lambda>x. s_date (snd x) \<ge> now) (venue_shows d i)) \<and>
         dt_past_shows p = rev (filter (\<lambda>x. s_date (snd x) < now) (venue_shows d i)) \<and>
         dt_past_count p + dt_upcoming_count p = length (venue_shows d i)"
proof -
  from show_venue_Inr [OF assms] obtain v
    where p: "p = detail_of v (v_genres v) now (venue_shows d i)" by blast
  show ?thesis unfolding p by (rule detail_of_partition)
qed

lemma show_artist_Inr:
  "show_artist d now i = Inr p \<Longrightarrow>
   \<exists>a. get_row (artist_rows d) i = Some a \<and> p = detail_of a (a_genres a) now (artist_shows d i)"
  by (auto simp: show_artist_def split: option.splits)


text \<open>
  C25. When the page is requested at time \<open>n\<close> (so that the string compared with is
  \<open>str(n)\<close>) and a show's date is stored as \<open>str(t)\<close> of a valid datetime \<open>t\<close>, the show
  is listed as upcoming exactly when \<open>t\<close> is not earlier than \<open>n\<close>.
\<close>

theorem show_venue_upcoming_chronological:
  assumes "show_venue d (py_str_datetime n) i = Inr p"
    and "valid_datetime n" and "valid_datetime t"
    and "x \<in> set (venue_shows d i)" and "s_date (snd x) = py_str_datetime t"
  shows "x \<in> set (dt_upcoming_shows p) \<longleftrightarrow> dt_key n \<le> dt_key t"
proof -
  from show_venue_Inr [OF assms(1)] obtain v
    where p: "p = detail_of v (v_genres v) (py_str_datetime n) (venue_shows d i)" by blast
  show ?thesis
    using assms(4,5) py_str_datetime_le [OF assms(2,3)] by (simp add: p detail_of_eq)
qed

subsection \<open>Search\<close>

text \<open>
  C9. For a search term without \<open>%\<close>, \<open>_\<close> or backslash, the venue search returns, in
  table order, exactly the venues whose lower-cased name contains the lower-cased term,
  with their number.
\<close>

theorem search_venues_substring:
  assumes "no_wild t"
  shows "search_venues d (Some t) =
           (filter (\<lambda>(_, v). sublist (lower t) (lower (v_name v))) (venue_rows d),
            length (filter (\<lambda>(_, v). sublist (lower t) (lower (v_name v))) (venue_rows d)))"
  using assms by (simp add: search_venues_def ilike_contains_sublist Let_def)

lemma search_artists_substring:
  assumes "no_wild t"
  shows "search_artists d (Some t) =
           (filter (\<lambda>(_, a). sublist (lower t) (lower (a_name a))) (artist_rows d),
            length (filter (\<lambda>(_, a). sublist (lower t) (lower (a_name a))) (artist_rows d)))"
  using assms by (simp add: search_artists_def ilike_contains_sublist Let_def)

text \<open>
  C28. An empty search term gives the pattern \<open>%%\<close>, which matches every name: both
  searches then return the whole table.
\<close>

theorem search_empty_term:
  "search_venues d (Some '''') = (venue_rows d, length (venue_rows d)) \<and>
   search_artists d (Some '''') = (artist_rows d, length (artist_rows d))"
proof -
  have "no_wild ''''" by (simp add: no_wild_def)
  then show ?thesis by (simp add: search_venues_def search_artists_def ilike_contains_sublist
      lower_def case_prod_unfold Let_def)
qed

subsection \<open>The grouping loop terminates\<close>

lemma venues_while_loop:
  "while_option (\<lambda>(vs, _). vs \<noteq> []) (venues_step t) (vs, data) = Some ([], venues_loop t vs data)"
proof (induction vs arbitrary: data)
  case Nil then show ?case by (simp add: while_option_unfold [of _ _ "([], data)"])
next
  case (Cons x vs)
  obtain k v where x: "x = (k, v)" by (cases x)
  let ?b = "\<lambda>(vs :: venue table, _ :: area list). vs \<noteq> []"
  let ?data' = "if area_of t v \<in> set data then data else data @ [area_of t v]"
  have "while_option ?b (venues_step t) (x # vs, data) =
        while_option ?b (venues_step t) (venues_step t (x # vs, data))"
    by (rule while_option_unfold [of _ _ "(x # vs, data)", THEN trans]) simp
  also have "venues_step t (x # vs, data) = (vs, ?data')"
    by (simp add: venues_step_def x Let_def)
  finally show ?case using Cons.IH [of ?data'] by (simp add: x Let_def)
qed


subsection \<open>Home page\<close>

lemma sort_key_desc_key:
  fixes t :: "'r table"
  assumes "sorted_wrt (<) (map fst t)"
  shows "sort_key (\<lambda>(k, _). - k) t = rev t"
proof (rule sort_key_inj_key_eq)
  show "mset t = mset (rev t)" by simp
  have "distinct (map fst t)" using assms by (rule sorted_wrt_distinct_less)
  then show "inj_on (\<lambda>(k, _). - k) (set t)"
  proof (intro inj_onI)
    fix x y assume "x \<in> set t" "y \<in> set t" "(\<lambda>(k, _). - k) x = (\<lambda>(k, _). - k) y"
    with \<open>distinct (map fst t)\<close> show "x = y"
      by (cases x, cases y) (auto dest: eq_key_imp_eq_value)
  qed
  have "sorted_wrt (<) (map (\<lambda>(k, _). - k) (rev t))"
    using assms by (induction t) (auto simp: sorted_wrt_append sorted_wrt_map)
  then show "sorted (map (\<lambda>(k, _). - k) (rev t))"
    by (rule strict_sorted_imp_sorted)
qed

text \<open>
  C10. The home page shows the ten venues and the ten artists with the largest keys, largest
  first: with keys assigned in increasing order, the ten most recently created.
\<close>

theorem index_latest:
  assumes "wf_db d"
  shows "index d = (take 10 (rev (venue_rows d)), take 10 (rev (artist_rows d)))"
  using assms by (simp add: index_def latest_def wf_db_def table_wf_def sort_key_desc_key)

end
