(* ===== verification/Handlers.thy ===== *)
theory Handlers
  imports Query
begin

text \<open>
  The state-changing request handlers of \<^verbatim>\<open>app.py\<close>: creating a venue (lines 170-204),
  deleting one (212-228), editing an artist (298-326) and a venue (348-379), creating an
  artist (389-419) and a show (439-464). The application state is the database and the
  session's list of flashed messages. A handler reads the form, builds one \<open>change\<close>
  and commits it; on a failed commit it rolls back (the database is left as it was) and
  flashes an error. A Python exception raised outside the \<open>try\<close> block becomes an
  error status.
\<close>

subsection \<open>Requests and responses\<close>

text \<open>
  The form body as Werkzeug's \<open>MultiDict\<close>: the list of submitted (key, value) pairs.
  \<open>request.form[k]\<close> and \<open>request.form.get(k)\<close> give the first value for \<open>k\<close>
  (the former raising \<open>BadRequestKeyError\<close> when there is none); \<open>getlist(k)\<close> gives
  all values in order.
\<close>

type_synonym form = "(string \<times> string) list"

definition form_get :: "form \<Rightarrow> string \<Rightarrow> string option" where
  "form_get f k = map_option snd (find (\<lambda>(k', _). k' = k) f)"

definition form_getlist :: "form \<Rightarrow> string \<Rightarrow> string list" where
  "form_getlist f k = map snd (filter (\<lambda>(k', _). k' = k) f)"

text \<open>
  \<open>request.form.get(k, False)\<close> stored in a \<open>db.String\<close> column: PostgreSQL's
  assignment cast writes the Python \<open>False\<close> as the text \<open>false\<close>.
\<close>

definition form_flag :: "form \<Rightarrow> string \<Rightarrow> string" where
  "form_flag f k = (case form_get f k of None \<Rightarrow> ''false'' | Some s \<Rightarrow> s)"

text \<open>
  The arguments a view passes to \<open>render_template\<close>, one constructor per kind of page;
  \<open>Empty_form\<close> is a fresh \<open>VenueForm()\<close>, \<open>ArtistForm()\<close> or \<open>ShowForm()\<close>, and
  \<open>No_args\<close> a template rendered without arguments.
\<close>

datatype page =
    Home_page "venue table" "artist table"
  | Venues_page "area list"
  | Search_venues_page "venue table" "string option" nat
  | Venue_page "venue detail"
  | Delete_venue_page "venue option"
  | Artists_page "artist table"
  | Search_artists_page "artist table" "string option" nat
  | Artist_page "artist detail"
  | Edit_artist_page artist
  | Edit_venue_page venue
  | Shows_page "show_row table"
  | Empty_form
  | No_args

text \<open>A view's result: a redirect to a URL, a rendered template with its arguments, or an error status.\<close>

datatype response = Redirect string | Render string page | Abort nat

record app =
  store :: db
  flashes :: "string list"

definition flash :: "string \<Rightarrow> app \<Rightarrow> app" where
  "flash m st = st\<lparr>flashes := flashes st @ [m]\<rparr>"

text \<open>The endpoints Flask registers, one per view function, with their URL rules.\<close>

definition endpoints :: "(string \<times> string) list" where
  "endpoints =
     [(''index'', ''/''), (''venues'', ''/venues''), (''search_venues'', ''/venues/search''),
      (''show_venue'', ''/venues/<int:venue_id>''), (''create_venue_form'', ''/venues/create''),
      (''create_venue_submission'', ''/venues/create''),
      (''delete_venue'', ''/venues/<int:venue_id>/delete''),
      (''delete_venue_form'', ''/venues/<int:venue_id>/delete''),
      (''artists'', ''/artists''), (''search_artists'', ''/artists/search''),
      (''show_artist'', ''/artists/<int:artist_id>''),
      (''edit_artist'', ''/artists/<int:artist_id>/edit''),
      (''edit_artist_submission'', ''/artists/<int:artist_id>/edit''),
      (''edit_venue'', ''/venues/<int:venue_id>/edit''),
      (''edit_venue_submission'', ''/venues/<int:venue_id>/edit''),
      (''create_artist_form'', ''/artists/create''),
      (''create_artist_submission'', ''/artists/create''), (''shows'', ''/shows''),
      (''create_shows'', ''/shows/create''), (''create_show_submission'', ''/shows/create'')]"

text \<open>\<open>url_for(endpoint)\<close> for an endpoint without parameters; an unknown name raises \<open>BuildError\<close>.\<close>

definition url_for :: "string \<Rightarrow> py_exc + string" where
  "url_for e = (case map_of endpoints e of None \<Rightarrow> Inl BuildError | Some u \<Rightarrow> Inr u)"

definition redirect_to :: "string \<Rightarrow> response" where
  "redirect_to e = (case url_for e of Inl x \<Rightarrow> Abort (status_of x) | Inr u \<Rightarrow> Redirect u)"

subsection \<open>Reading the forms\<close>

text \<open>
  The fields in the order the handlers read them; \<open>None\<close> is the \<open>BadRequestKeyError\<close>
  of the first missing \<open>request.form[...]\<close>. The genres are \<open>' '.join(getlist('genres'))\<close>.
\<close>

definition venue_form :: "form \<Rightarrow> venue option" where
  "venue_form f = do {
     name \<leftarrow> form_get f ''name'';
     city \<leftarrow> form_get f ''city'';
     state \<leftarrow> form_get f ''state'';
     address \<leftarrow> form_get f ''address'';
     phone \<leftarrow> form_get f ''phone'';
     let genres = py_join '' '' (form_getlist f ''genres'');
     facebook_link \<leftarrow> form_get f ''facebook_link'';
     image_link \<leftarrow> form_get f ''image_link'';
     website_link \<leftarrow> form_get f ''website_link'';
     let seeking_talent = form_flag f ''seeking_talent'';
     seeking_description \<leftarrow> form_get f ''seeking_description'';
     Some \<lparr>v_name = name, v_city = city, v_state = state, v_address = address, v_phone = phone,
           v_genres = genres, v_image_link = image_link, v_facebook_link = Some facebook_link,
           v_website_link = Some website_link, v_seeking_talent = seeking_talent,
           v_seeking_description = Some seeking_description\<rparr>
   }"

definition artist_form :: "form \<Rightarrow> artist option" where
  "artist_form f = do {
     name \<leftarrow> form_get f ''name'';
     city \<leftarrow> form_get f ''city'';
     state \<leftarrow> form_get f ''state'';
     phone \<leftarrow> form_get f ''phone'';
     let genres = py_join '' '' (form_getlist f ''genres'');
     facebook_link \<leftarrow> form_get f ''facebook_link'';
     image_link \<leftarrow> form_get f ''image_link'';
     website_link \<leftarrow> form_get f ''website_link'';
     let seeking_venue = form_flag f ''seeking_venue'';
     seeking_description \<leftarrow> form_get f ''seeking_description'';
     Some \<lparr>a_name = name, a_city = city, a_state = state, a_phone = phone, a_genres = genres,
           a_image_link = image_link, a_facebook_link = Some facebook_link,
           a_website_link = Some website_link, a_seeking_venue = seeking_venue,
           a_seeking_description = Some seeking_description\<rparr>
   }"

subsection \<open>The handlers\<close>

definition create_venue_submission :: "form \<Rightarrow> app \<Rightarrow> response \<times> app" where
  "create_venue_submission f st =
     (case venue_form f of
        None \<Rightarrow> (Abort (status_of BadRequestKeyError), st)
      | Some v \<Rightarrow>
          (case commit (store st) (Add_venue v) of
             Inr d' \<Rightarrow> (redirect_to ''index'',
                         flash (''Venue '' @ v_name v @ '' was successfully listed!'') (st\<lparr>store := d'\<rparr>))
           | Inl _ \<Rightarrow> (redirect_to ''index'',
                         flash (''An error occurred. Venue '' @ v_name v @ '' could not be listed.'')
                           (st\<lparr>store := rollback (store st) (Add_venue v)\<rparr>))))"

text \<open>
  \<open>Venue.query.get\<close> gives \<open>None\<close> for an unknown key and \<open>db.session.delete(None)\<close>
  raises before the \<open>try\<close>. The messages lack a space after the venue's name.
\<close>

definition delete_venue_form :: "ident \<Rightarrow> app \<Rightarrow> response \<times> app" where
  "delete_venue_form i st =
     (case get_row (venue_rows (store st)) i of
        None \<Rightarrow> (Abort (status_of UnmappedInstanceError), st)
      | Some v \<Rightarrow>
          (case commit (store st) (Remove_venue i) of
             Inr d' \<Rightarrow> (redirect_to ''index'',
                         flash (''Venue '' @ v_name v @ ''was deleted successfully!'') (st\<lparr>store := d'\<rparr>))
           | Inl _ \<Rightarrow> (redirect_to ''index'', flash (''Venue '' @ v_name v @ ''failed to be deleted'')
                           (st\<lparr>store := rollback (store st) (Remove_venue i)\<rparr>))))"

text \<open>
  The edit handlers assign \<open>obj.name = request.form['name']\<close> first: for an unknown key
  the form is read (a missing field raises \<open>BadRequestKeyError\<close>) before the assignment
  to \<open>None\<close> raises \<open>AttributeError\<close>. After a commit the messages read the refreshed
  row: the new name after success, the old one after the rollback.
  The artist handler's error branch redirects to the endpoint \<open>'indes'\<close>.
\<close>

definition edit_artist_submission :: "ident \<Rightarrow> form \<Rightarrow> app \<Rightarrow> response \<times> app" where
  "edit_artist_submission i f st =
     (case get_row (artist_rows (store st)) i of
        None \<Rightarrow> (Abort (status_of (if form_get f ''name'' = None then BadRequestKeyError
                                  else AttributeError)), st)
      | Some old \<Rightarrow>
          (case artist_form f of
             None \<Rightarrow> (Abort (status_of BadRequestKeyError), st)
           | Some a \<Rightarrow>
               (case commit (store st) (Set_artist i a) of
                  Inr d' \<Rightarrow> (redirect_to ''index'',
                              flash (''Artist '' @ a_name a @ '' was successfully updated!'')
                                (st\<lparr>store := d'\<rparr>))
                | Inl _ \<Rightarrow> (redirect_to ''indes'',
                              flash (''An error occurred. Artist '' @ a_name old @ '' could not be updated.'')
                                (st\<lparr>store := rollback (store st) (Set_artist i a)\<rparr>)))))"

text \<open>
  The venue edit in its two phases: loading the row and reading the form into it
  (\<open>edit_venue_begin\<close>, lines 352-364) and committing (\<open>edit_venue_finish\<close>, lines
  366-379). Between them the request holds a loaded object while other requests may
  change the database. After a failed commit the message reads \<open>venue.name\<close> from the
  reloaded row; if the row is gone, SQLAlchemy raises \<open>ObjectDeletedError\<close> inside
  the \<open>except\<close> block.
\<close>

definition edit_venue_begin :: "ident \<Rightarrow> form \<Rightarrow> db \<Rightarrow> response + venue" where
  "edit_venue_begin i f d =
     (case get_row (venue_rows d) i of
        None \<Rightarrow> Inl (Abort (status_of (if form_get f ''name'' = None then BadRequestKeyError
                                     else AttributeError)))
      | Some _ \<Rightarrow>
          (case venue_form f of
             None \<Rightarrow> Inl (Abort (status_of BadRequestKeyError))
           | Some v \<Rightarrow> Inr v))"

definition edit_venue_finish :: "ident \<Rightarrow> venue \<Rightarrow> app \<Rightarrow> response \<times> app" where
  "edit_venue_finish i v st =
     (case commit (store st) (Set_venue i v) of
        Inr d' \<Rightarrow> (redirect_to ''index'',
                    flash (''Venue '' @ v_name v @ '' was successfully updated!'') (st\<lparr>store := d'\<rparr>))
      | Inl _ \<Rightarrow>
          (let d0 = rollback (store st) (Set_venue i v)
           in case get_row (venue_rows d0) i of
                None \<Rightarrow> (Abort (status_of ObjectDeletedError), st\<lparr>store := d0\<rparr>)
              | Some cur \<Rightarrow> (redirect_to ''index'',
                             flash (''An error occurred. Venue '' @ v_name cur @ '' could not be updated.'')
                               (st\<lparr>store := d0\<rparr>))))"

definition edit_venue_submission :: "ident \<Rightarrow> form \<Rightarrow> app \<Rightarrow> response \<times> app" where
  "edit_venue_submission i f st =
     (case edit_venue_begin i f (store st) of
        Inl resp \<Rightarrow> (resp, st)
      | Inr v \<Rightarrow> edit_venue_finish i v st)"

definition create_artist_submission :: "form \<Rightarrow> app \<Rightarrow> response \<times> app" where
  "create_artist_submission f st =
     (case artist_form f of
        None \<Rightarrow> (Abort (status_of BadRequestKeyError), st)
      | Some a \<Rightarrow>
          (case commit (store st) (Add_artist a) of
             Inr d' \<Rightarrow> (Render ''pages/home.html'' No_args,
                         flash (''Artist '' @ a_name a @ '' was successfully listed!'') (st\<lparr>store := d'\<rparr>))
           | Inl _ \<Rightarrow> (Render ''pages/home.html'' No_args,
                         flash (''An error occurred. Artist '' @ a_name a @ '' could not be listed.'')
                           (st\<lparr>store := rollback (store st) (Add_artist a)\<rparr>))))"

definition create_show_submission :: "form \<Rightarrow> app \<Rightarrow> response \<times> app" where
  "create_show_submission f st =
     (let c = Add_show (form_get f ''artist_id'') (form_get f ''venue_id'') (form_get f ''start_time'')
      in case commit (store st) c of
           Inr d' \<Rightarrow> (Render ''pages/home.html'' No_args,
                       flash ''Show was successfully listed!'' (st\<lparr>store := d'\<rparr>))
         | Inl _ \<Rightarrow> (Render ''pages/home.html'' No_args,
                       flash ''Show was not listed!'' (st\<lparr>store := rollback (store st) c\<rparr>)))"

declare create_venue_submission_def [handler_defs] delete_venue_form_def [handler_defs]
  edit_artist_submission_def [handler_defs] edit_venue_submission_def [handler_defs]
  edit_venue_begin_def [handler_defs] edit_venue_finish_def [handler_defs]
  create_artist_submission_def [handler_defs] create_show_submission_def [handler_defs]

subsection \<open>Responses of the redirects\<close>

lemma redirect_index [simp]: "redirect_to ''index'' = Redirect ''/''"
  by (simp add: redirect_to_def url_for_def endpoints_def)

lemma redirect_indes [simp]: "redirect_to ''indes'' = Abort 500"
  by (simp add: redirect_to_def url_for_def endpoints_def status_of_def)

lemma status_of_simps [simp]:
  "status_of BadRequestKeyError = 400" "status_of AttributeError = 500"
  "status_of UnmappedInstanceError = 500" "status_of BuildError = 500"
  "status_of ObjectDeletedError = 500" "status_of ParserError = 500"
  by (simp_all add: status_of_def)

lemma store_flash [simp]: "store (flash m st) = store st"
  by (simp add: flash_def)

lemma flashes_flash [simp]: "flashes (flash m st) = flashes st @ [m]"
  by (simp add: flash_def)

subsection \<open>What the forms store\<close>

text \<open>The row built from a venue form holds the submitted values, field by field.\<close>

lemma venue_form_fields:
  assumes "venue_form f = Some v"
  shows "form_get f ''name'' = Some (v_name v) \<and> form_get f ''city'' = Some (v_city v) \<and>
         form_get f ''state'' = Some (v_state v) \<and> form_get f ''address'' = Some (v_address v) \<and>
         form_get f ''phone'' = Some (v_phone v) \<and>
         v_genres v = py_join '' '' (form_getlist f ''genres'') \<and>
         v_facebook_link v = form_get f ''facebook_link'' \<and>
         form_get f ''image_link'' = Some (v_image_link v) \<and>
         v_website_link v = form_get f ''website_link'' \<and>
         v_seeking_talent v = form_flag f ''seeking_talent'' \<and>
         v_seeking_description v = form_get f ''seeking_description''"
  using assms by (auto simp: venue_form_def Let_def bind_eq_Some_conv)

lemma artist_form_fields:
  assumes "artist_form f = Some a"
  shows "form_get f ''name'' = Some (a_name a) \<and> form_get f ''city'' = Some (a_city a) \<and>
         form_get f ''state'' = Some (a_state a) \<and> form_get f ''phone'' = Some (a_phone a) \<and>
         a_genres a = py_join '' '' (form_getlist f ''genres'') \<and>
         a_facebook_link a = form_get f ''facebook_link'' \<and>
         form_get f ''image_link'' = Some (a_image_link a) \<and>
         a_website_link a = form_get f ''website_link'' \<and>
         a_seeking_venue a = form_flag f ''seeking_venue'' \<and>
         a_seeking_description a = form_get f ''seeking_description''"
  using assms by (auto simp: artist_form_def Let_def bind_eq_Some_conv)

subsection \<open>The branches of the handlers\<close>

lemma create_venue_submission_ok:
  assumes "venue_form f = Some v" and "venue_cols_ok v" and "next_venue_id (store st) \<le> int4_max"
  shows "create_venue_submission f st =
           (Redirect ''/'', flash (''Venue '' @ v_name v @ '' was successfully listed!'')
              (st\<lparr>store := (store st)\<lparr>venue_rows := add_row (next_venue_id (store st)) v
                                                       (venue_rows (store st)),
                                         next_venue_id := next_venue_id (store st) + 1\<rparr>\<rparr>))"
  using assms by (simp add: create_venue_submission_def)

lemma create_venue_submission_fail:
  assumes "venue_form f = Some v" and "\<not> venue_cols_ok v"
  shows "create_venue_submission f st =
           (Redirect ''/'', flash (''An error occurred. Venue '' @ v_name v @ '' could not be listed.'') st)"
  using assms by (simp add: create_venue_submission_def)

lemma edit_venue_begin_Inr:
  "edit_venue_begin i f d = Inr v \<Longrightarrow> i \<in> set (map fst (venue_rows d)) \<and> venue_form f = Some v"
  by (force simp: edit_venue_begin_def get_row_def split: option.splits dest: map_of_SomeD)

lemma edit_venue_finish_ok:
  assumes "i \<in> set (map fst (venue_rows (store st)))" and "venue_cols_ok v"
  shows "edit_venue_finish i v st =
           (Redirect ''/'', flash (''Venue '' @ v_name v @ '' was successfully updated!'')
              (st\<lparr>store := (store st)\<lparr>venue_rows := set_row i v (venue_rows (store st))\<rparr>\<rparr>))"
  using assms by (simp add: edit_venue_finish_def)

lemma edit_venue_submission_ok:
  assumes "get_row (venue_rows (store st)) i = Some old" and "venue_form f = Some v"
    and "venue_cols_ok v"
  shows "edit_venue_submission i f st =
           (Redirect ''/'', flash (''Venue '' @ v_name v @ '' was successfully updated!'')
              (st\<lparr>store := (store st)\<lparr>venue_rows := set_row i v (venue_rows (store st))\<rparr>\<rparr>))"
proof -
  have "i \<in> set (map fst (venue_rows (store st)))"
    using assms(1) by (force simp: get_row_def dest: map_of_SomeD)
  with assms show ?thesis
    by (simp add: edit_venue_submission_def edit_venue_begin_def edit_venue_finish_ok)
qed

lemma delete_venue_form_ok:
  assumes "get_row (venue_rows (store st)) i = Some v"
  shows "delete_venue_form i st =
           (Redirect ''/'', flash (''Venue '' @ v_name v @ ''was deleted successfully!'')
              (st\<lparr>store := (store st)\<lparr>show_rows := nullify_venue i (show_rows (store st)),
                                         venue_rows := del_row i (venue_rows (store st))\<rparr>\<rparr>))"
proof -
  have "i \<in> set (map fst (venue_rows (store st)))"
    using assms by (force simp: get_row_def dest: map_of_SomeD)
  with assms show ?thesis by (simp add: delete_venue_form_def)
qed

lemma delete_venue_form_missing:
  "get_row (venue_rows (store st)) i = None \<Longrightarrow> delete_venue_form i st = (Abort 500, st)"
  by (simp add: delete_venue_form_def)

end
