(* ===== verification/App.thy ===== *)
theory App
  imports Handlers
begin

text \<open>
  The application as a state machine: one request constructor per route of
  \<^verbatim>\<open>app.py\<close>, the dispatcher \<open>handle\<close> (Flask's URL map and the error views,
  lines 95-472), the states reachable from an empty database, and \<open>run\<close>, which serves a
  list of requests in order. The lemmas show the database invariant of every reachable
  state, that views without a form leave the state alone, that a request commits one
  unit of work or changes no row, and the kinds of response the application gives.
\<close>

section \<open>Requests and the application as a state machine\<close>

text \<open>
  One constructor per route of \<^verbatim>\<open>app.py\<close> (the \<open>@app.route\<close> decorators). Path
  parameters are the \<open><int:...>\<close> converters' keys; \<open>now\<close> is \<open>datetime.now()\<close>
  at the time of the request, compared in its \<open>str\<close> form.
\<close>

datatype request =
    Get_index
  | Get_venues
  | Post_search_venues form
  | Get_venue ident py_datetime
  | Get_create_venue_form
  | Post_create_venue form
  | Get_delete_venue ident
  | Post_delete_venue ident
  | Get_artists
  | Post_search_artists form
  | Get_artist ident py_datetime
  | Get_edit_artist ident
  | Post_edit_artist ident form
  | Get_edit_venue ident
  | Post_edit_venue ident form
  | Get_create_artist_form
  | Post_create_artist form
  | Get_shows
  | Get_create_show_form
  | Post_create_show form

text \<open>A page that renders its template, or the error page of the exception it raised.\<close>

definition render :: "string \<Rightarrow> ('a \<Rightarrow> page) \<Rightarrow> py_exc + 'a \<Rightarrow> response" where
  "render tpl pg r = (case r of Inl e \<Rightarrow> Abort (status_of e) | Inr x \<Rightarrow> Render tpl (pg x))"

fun handle :: "app \<Rightarrow> request \<Rightarrow> response \<times> app" where
  "handle st Get_index = (Render ''pages/home.html'' (case_prod Home_page (index (store st))), st)"
| "handle st Get_venues = (Render ''pages/venues.html'' (Venues_page (venues (store st))), st)"
| "handle st (Post_search_venues f) =
     (let t = form_get f ''search_term''
      in (Render ''pages/search_venues.html''
            (case search_venues (store st) t of (r, n) \<Rightarrow> Search_venues_page r t n), st))"
| "handle st (Get_venue i now) =
     (render ''pages/show_venue.html'' Venue_page (show_venue (store st) (py_str_datetime now) i), st)"
| "handle st Get_create_venue_form = (Render ''forms/new_venue.html'' Empty_form, st)"
| "handle st (Post_create_venue f) = create_venue_submission f st"
| "handle st (Get_delete_venue i) =
     (Render ''pages/delete_venue.html'' (Delete_venue_page (delete_venue (store st) i)), st)"
| "handle st (Post_delete_venue i) = delete_venue_form i st"
| "handle st Get_artists = (Render ''pages/artists.html'' (Artists_page (artists (store st))), st)"
| "handle st (Post_search_artists f) =
     (let t = form_get f ''search_term''
      in (Render ''pages/search_artists.html''
            (case search_artists (store st) t of (r, n) \<Rightarrow> Search_artists_page r t n), st))"
| "handle st (Get_artist i now) =
     (render ''pages/show_artist.html'' Artist_page (show_artist (store st) (py_str_datetime now) i), st)"
| "handle st (Get_edit_artist i) =
     (render ''forms/edit_artist.html'' Edit_artist_page (edit_artist (store st) i), st)"
| "handle st (Post_edit_artist i f) = edit_artist_submission i f st"
| "handle st (Get_edit_venue i) =
     (render ''forms/edit_venue.html'' Edit_venue_page (edit_venue (store st) i), st)"
| "handle st (Post_edit_venue i f) = edit_venue_submission i f st"
| "handle st Get_create_artist_form = (Render ''forms/new_artist.html'' Empty_form, st)"
| "handle st (Post_create_artist f) = create_artist_submission f st"
| "handle st Get_shows = (Render ''pages/shows.html'' (Shows_page (shows_view (store st))), st)"
| "handle st Get_create_show_form = (Render ''forms/new_show.html'' Empty_form, st)"
| "handle st (Post_create_show f) = create_show_submission f st"

fun read_only :: "request \<Rightarrow> bool" where
  "read_only (Post_create_venue _) = False"
| "read_only (Post_delete_venue _) = False"
| "read_only (Post_edit_artist _ _) = False"
| "read_only (Post_edit_venue _ _) = False"
| "read_only (Post_create_artist _) = False"
| "read_only (Post_create_show _) = False"
| "read_only _ = True"

definition init_app :: app where
  "init_app = \<lparr>store = init_db, flashes = []\<rparr>"

text \<open>The states the application reaches from an empty database by any sequence of requests.\<close>

inductive reachable :: "app \<Rightarrow> bool" where
  init: "reachable init_app"
| step: "reachable st \<Longrightarrow> handle st r = (resp, st') \<Longrightarrow> reachable st'"

text \<open>A sequence of requests served one after the other, with the responses in order.\<close>

fun run :: "app \<Rightarrow> request list \<Rightarrow> response list \<times> app" where
  "run st [] = ([], st)"
| "run st (r # rs) =
     (case handle st r of (resp, st') \<Rightarrow> (case run st' rs of (resps, st'') \<Rightarrow> (resp # resps, st'')))"

section \<open>Every request keeps the database well-formed\<close>

text \<open>
  A request changes the database by a commit that succeeded or by the rollback of one
  that failed; every other path (an exception) leaves it as it was.
\<close>

lemma handle_store:
  assumes "handle st r = (resp, st')"
  shows "store st' = store st \<or> (\<exists>c. commit (store st) c = Inr (store st')) \<or>
         (\<exists>c. store st' = rollback (store st) c)"
  using assms
  by (cases r) (auto simp: handler_defs Let_def simp del: commit.simps rollback_not_show
      split: option.splits sum.splits if_splits)

lemma reachable_invariant:
  "reachable st \<Longrightarrow> wf_db (store st) \<and> counters_pos (store st) \<and> counters_bounded (store st)"
proof (induction rule: reachable.induct)
  case init
  have "wf_db init_db" by (rule wf_db_init)
  then show ?case
    by (simp add: init_app_def counters_pos_def counters_bounded_def init_db_def int4_max_def)
next
  case (step st r resp st')
  from handle_store [OF step.hyps(2)] consider
      "store st' = store st"
    | c where "commit (store st) c = Inr (store st')"
    | c where "store st' = rollback (store st) c"
    by blast
  then show ?case
  proof cases
    case 1 with step.IH show ?thesis by simp
  next
    case 2 with step.IH show ?thesis
      by (auto intro: commit_wf commit_counters_pos commit_counters_bounded)
  next
    case 3 with step.IH rollback_invariants show ?thesis by metis
  qed
qed

text \<open>C1. Every state reachable from the initial one by a sequence of requests has a well-formed database: each table's keys are positive, increasing and below the table's sequence counter, every row fits its columns, and every show's foreign keys are NULL or name existing rows.\<close>

theorem reachable_wf: "reachable st \<Longrightarrow> wf_db (store st)"
  using reachable_invariant by blast

text \<open>C3. Pages and form renderings leave the application state as it was.\<close>

theorem handle_read_only:
  assumes "read_only r" and "handle st r = (resp, st')"
  shows "st' = st"
  using assms by (cases r) (auto simp: Let_def)


section \<open>Sequences of requests, bounds and atomicity\<close>

lemma run_snoc: "snd (run st (rs @ [r])) = snd (handle (snd (run st rs)) r)"
  by (induction st rs rule: run.induct) (auto split: prod.splits)

lemma reachable_run_from: "reachable st \<Longrightarrow> reachable (snd (run st rs))"
proof (induction rs arbitrary: st)
  case Nil then show ?case by simp
next
  case (Cons r rs)
  obtain resp st' where h: "handle st r = (resp, st')" by (cases "handle st r")
  from Cons.prems h have "reachable st'" by (rule reachable.step)
  then have "reachable (snd (run st' rs))" by (rule Cons.IH)
  with h show ?case by (cases "run st' rs") simp
qed



text \<open>
  C30. A request leaves no partial change behind: either one unit of work was committed,
  or every table holds exactly the rows it held before (a failed commit is rolled back).
\<close>

theorem handle_atomic:
  assumes "handle st r = (resp, st')"
  shows "(\<exists>c. commit (store st) c = Inr (store st')) \<or>
         (venue_rows (store st') = venue_rows (store st) \<and>
          artist_rows (store st') = artist_rows (store st) \<and>
          show_rows (store st') = show_rows (store st))"
  using handle_store [OF assms] by auto

text \<open>
  C33. Every response is a redirect to the home page, a rendered template, or the error
  status 400 or 500; no request of the application is answered with 404.
\<close>

theorem handle_response_kinds:
  "case fst (handle st r) of
     Redirect u \<Rightarrow> u = ''/'' | Render _ _ \<Rightarrow> True | Abort n \<Rightarrow> n = 400 \<or> n = 500"
  by (cases r) (auto simp: handler_defs render_def status_of_def Let_def
      split: option.splits sum.splits if_splits)

end
