(* ===== verification/Filters.thy ===== *)
theory Filters
  imports Text Dates
begin

text \<open>
  The template filter \<open>format_datetime(value, format='medium')\<close> of \<^verbatim>\<open>app.py\<close>
  (lines 81-89): \<open>dateutil.parser.parse(value)\<close>, then, with the two named formats
  replaced by their patterns, \<open>babel.dates.format_datetime(date, format, locale='en')\<close>.
  The parser is modelled on the texts the application stores and \<open>str(datetime)\<close>
  produces (\<open>YYYY-MM-DD HH:MM:SS\<close>, optionally \<open>T\<close> as separator and six fraction
  digits); \<open>None\<close> stands for a text outside that format, which this model does not
  decide. The formatter follows Babel's \<open>tokenize_pattern\<close> and
  \<open>DateTimeFormat\<close> for the English locale and the fields \<open>E M d y h H m s a\<close>;
  \<open>None\<close> is a field or a locale format (\<open>short\<close>, \<open>long\<close>) outside the model.
\<close>

subsection \<open>Parsing the stored text\<close>

definition nat_of_digits :: "string \<Rightarrow> nat" where
  "nat_of_digits ds = nat (digits_val ds)"

definition parse_datetime :: "string \<Rightarrow> (py_exc + py_datetime) option" where
  "parse_datetime s =
     (let y = take 4 s; mo = take 2 (drop 5 s); d = take 2 (drop 8 s);
          h = take 2 (drop 11 s); mi = take 2 (drop 14 s); sec = take 2 (drop 17 s);
          us = drop 20 s
      in if (length s = 19 \<or> length s = 26 \<and> s ! 19 = CHR ''.'') \<and>
            s ! 4 = CHR ''-'' \<and> s ! 7 = CHR ''-'' \<and> (s ! 10 = CHR '' '' \<or> s ! 10 = CHR ''T'') \<and>
            s ! 13 = CHR '':'' \<and> s ! 16 = CHR '':'' \<and>
            list_all (list_all is_digit) [y, mo, d, h, mi, sec, us]
         then (let t = \<lparr>pd_year = nat_of_digits y, pd_month = nat_of_digits mo,
                        pd_day = nat_of_digits d, pd_hour = nat_of_digits h,
                        pd_minute = nat_of_digits mi, pd_second = nat_of_digits sec,
                        pd_microsecond = nat_of_digits us\<rparr>
               in Some (if valid_datetime t then Inr t else Inl ParserError))
         else None)"

subsection \<open>Numbers and the calendar\<close>

text \<open>
  \<open>str(n)\<close> and Babel's \<open>'%0*d' % (w, n)\<close> padding; the day of the week from
  CPython's \<open>_days_before_year\<close>, \<open>_days_before_month\<close> and \<open>toordinal\<close>,
  \<open>weekday() = (toordinal() + 6) % 7\<close>, Monday being 0.
\<close>

fun dec :: "nat \<Rightarrow> string" where
  "dec n = (if n < 10 then [digit_char n] else dec (n div 10) @ [digit_char (n mod 10)])"

declare dec.simps [simp del]

definition pad :: "nat \<Rightarrow> nat \<Rightarrow> string" where
  "pad w n = replicate (w - length (dec n)) (CHR ''0'') @ dec n"

definition days_before_year :: "nat \<Rightarrow> nat" where
  "days_before_year year = (let y = year - 1 in y * 365 + y div 4 - y div 100 + y div 400)"

definition days_before_month :: "nat \<Rightarrow> nat \<Rightarrow> nat" where
  "days_before_month year month =
     [0, 31, 59, 90, 120, 151, 181, 212, 243, 273, 304, 334] ! (month - 1) +
     (if 2 < month \<and> is_leap year then 1 else 0)"

definition toordinal :: "py_datetime \<Rightarrow> nat" where
  "toordinal t = days_before_year (pd_year t) + days_before_month (pd_year t) (pd_month t) + pd_day t"

definition weekday :: "py_datetime \<Rightarrow> nat" where
  "weekday t = (toordinal t + 6) mod 7"

definition day_names :: "string list" where
  "day_names = [''Monday'', ''Tuesday'', ''Wednesday'', ''Thursday'', ''Friday'', ''Saturday'', ''Sunday'']"

definition month_names :: "string list" where
  "month_names = [''January'', ''February'', ''March'', ''April'', ''May'', ''June'', ''July'',
                  ''August'', ''September'', ''October'', ''November'', ''December'']"

subsection \<open>Babel's date patterns\<close>

text \<open>
  \<open>tokenize_pattern\<close>: \<open>''\<close> stands for a quote; text between quotes is literal;
  a run of one pattern letter is a field with its width; any other character is literal.
\<close>

datatype pat_token = Field char nat | Lit string

definition pattern_chars :: string where
  "pattern_chars = ''GyYuQqMLwWdDFgEecahHKkmsSAzZOvVXx''"

definition quote :: char where "quote = CHR 0x27"

fun esc_quotes :: "string \<Rightarrow> string" where
  "esc_quotes (a # b # cs) = (if a = quote \<and> b = quote then CHR 0x00 # esc_quotes cs else a # esc_quotes (b # cs))"
| "esc_quotes cs = cs"

definition unesc :: "char \<Rightarrow> char" where
  "unesc c = (if c = CHR 0x00 then quote else c)"

function tokens :: "string option \<Rightarrow> string \<Rightarrow> pat_token list" where
  "tokens None [] = []"
| "tokens (Some buf) [] = [Lit (map unesc buf)]"
| "tokens None (c # cs) =
     (if c = quote then tokens (Some []) cs
      else if c \<in> set pattern_chars
      then Field c (Suc (length (takeWhile ((=) c) cs))) # tokens None (dropWhile ((=) c) cs)
      else Lit [unesc c] # tokens None cs)"
| "tokens (Some buf) (c # cs) =
     (if c = quote then Lit (map unesc buf) # tokens None cs else tokens (Some (buf @ [c])) cs)"
  by pat_completeness auto
termination
  by (relation "measure (\<lambda>(_, s). length s)") (auto simp: le_imp_less_Suc length_dropWhile_le)

definition tokenize_pattern :: "string \<Rightarrow> pat_token list" where
  "tokenize_pattern p = tokens None (esc_quotes p)"

text \<open>One field of the English locale: weekday and month names, padded numbers, AM/PM.\<close>

definition clock_hour :: "py_datetime \<Rightarrow> nat" where
  "clock_hour t = (if pd_hour t mod 12 = 0 then 12 else pd_hour t mod 12)"

definition format_field :: "char \<Rightarrow> nat \<Rightarrow> py_datetime \<Rightarrow> string option" where
  "format_field c n t =
     (let wd = day_names ! weekday t; mn = month_names ! (pd_month t - 1)
      in if c = CHR ''E'' then (if n \<le> 3 then Some (take 3 wd) else if n = 4 then Some wd else None)
      else if c = CHR ''M'' then
        (if n = 1 then Some (dec (pd_month t)) else if n = 2 then Some (pad 2 (pd_month t))
         else if n = 3 then Some (take 3 mn) else if n = 4 then Some mn else None)
      else if c = CHR ''d'' then Some (pad n (pd_day t))
      else if c = CHR ''y'' then Some (if n = 2 then pad 2 (pd_year t mod 100) else pad n (pd_year t))
      else if c = CHR ''h'' then Some (pad n (clock_hour t))
      else if c = CHR ''H'' then Some (pad n (pd_hour t))
      else if c = CHR ''m'' then Some (pad n (pd_minute t))
      else if c = CHR ''s'' then Some (pad n (pd_second t))
      else if c = CHR ''a'' then (if n \<le> 3 then Some (if pd_hour t < 12 then ''AM'' else ''PM'') else None)
      else None)"

fun format_tokens :: "pat_token list \<Rightarrow> py_datetime \<Rightarrow> string option" where
  "format_tokens [] t = Some []"
| "format_tokens (Lit s # ts) t = map_option (\<lambda>r. s @ r) (format_tokens ts t)"
| "format_tokens (Field c n # ts) t =
     (case format_field c n t of None \<Rightarrow> None | Some f \<Rightarrow> map_option (\<lambda>r. f @ r) (format_tokens ts t))"

definition babel_format :: "string \<Rightarrow> py_datetime \<Rightarrow> string option" where
  "babel_format p t = format_tokens (tokenize_pattern p) t"

subsection \<open>The filter\<close>

definition full_pattern :: string where
  "full_pattern = ''EEEE MMMM, d, y '' @ [quote] @ ''at'' @ [quote] @ '' h:mma''"

definition medium_pattern :: string where
  "medium_pattern = ''EE MM, dd, y h:mma''"

definition format_datetime :: "string \<Rightarrow> string \<Rightarrow> (py_exc + string) option" where
  "format_datetime value fmt =
     (let p = (if fmt = ''full'' then full_pattern else if fmt = ''medium'' then medium_pattern else fmt)
      in case parse_datetime value of
           None \<Rightarrow> None
         | Some (Inl e) \<Rightarrow> Some (Inl e)
         | Some (Inr t) \<Rightarrow> if p \<in> {''short'', ''long''} then None else map_option Inr (babel_format p t))"

subsection \<open>Digits\<close>

lemma foldl_digits:
  "foldl (\<lambda>n c. 10 * n + digit_val c) a cs =
   a * 10 ^ length cs + foldl (\<lambda>n c. 10 * n + digit_val c) 0 cs"
proof (induction cs rule: rev_induct)
  case Nil then show ?case by simp
next
  case (snoc x xs)
  then show ?case by (simp add: distrib_left)
qed

lemma digits_val_Cons: "digits_val (c # cs) = digit_val c * 10 ^ length cs + digits_val cs"
  unfolding digits_val_def foldl_Cons by (subst foldl_digits) simp

lemma digits_val_snoc: "digits_val (xs @ [c]) = 10 * digits_val xs + digit_val c"
  by (simp add: digits_val_def)

lemma digit_val_digit_char: "k < 10 \<Longrightarrow> digit_val (digit_char k) = int k"
  unfolding digit_val_def digit_char_def of_char_of by simp

lemma is_digit_digit_char: "k < 10 \<Longrightarrow> is_digit (digit_char k)"
  unfolding is_digit_def digit_char_def less_eq_char_def of_char_of by simp

lemma digits_val_zpad: "digits_val (zpad w n) = int (n mod 10 ^ w)"
proof (induction w)
  case 0 then show ?case by (simp add: digits_val_def)
next
  case (Suc w)
  have d: "n div 10 ^ w mod 10 < 10" by simp
  have "digits_val (zpad (Suc w) n) =
        digit_val (digit_char (n div 10 ^ w mod 10)) * 10 ^ w + digits_val (zpad w n)"
    by (simp add: digits_val_Cons)
  also have "\<dots> = int (10 ^ w * (n div 10 ^ w mod 10) + n mod 10 ^ w)"
    using digit_val_digit_char [OF d] Suc by (simp add: mult.commute)
  also have "10 ^ w * (n div 10 ^ w mod 10) + n mod 10 ^ w = n mod 10 ^ Suc w"
    by (simp only: power_Suc2 mod_mult2_eq)
  finally show ?case .
qed

lemma digits_zpad: "list_all is_digit (zpad w n)"
  by (induction w) (simp_all add: is_digit_digit_char)

lemma nat_of_digits_zpad: "n < 10 ^ w \<Longrightarrow> nat_of_digits (zpad w n) = n"
  by (simp add: nat_of_digits_def digits_val_zpad)

lemma nat_of_digits_Nil: "nat_of_digits [] = 0"
  by (simp add: nat_of_digits_def digits_val_def)

lemma dec_digits: "list_all is_digit (dec n)"
proof (induction n rule: dec.induct)
  case (1 n) then show ?case
    by (subst dec.simps) (simp add: is_digit_digit_char)
qed

lemma digits_val_dec: "digits_val (dec n) = int n"
proof (induction n rule: dec.induct)
  case (1 n)
  show ?case
  proof (cases "n < 10")
    case True then show ?thesis
      by (subst dec.simps) (simp add: digit_val_digit_char digits_val_def)
  next
    case False
    then have "digits_val (dec n) = 10 * int (n div 10) + int (n mod 10)"
      using 1 by (subst dec.simps) (simp add: digits_val_snoc digit_val_digit_char)
    also have "\<dots> = int n" using div_mult_mod_eq [of n 10] by linarith
    finally show ?thesis .
  qed
qed

lemma digits_val_zeros: "digits_val (replicate k (CHR ''0'') @ ds) = digits_val ds"
  by (induction k) (simp_all add: digits_val_Cons digit_val_def)

lemma nat_of_digits_pad: "nat_of_digits (pad w n) = n"
  by (simp add: nat_of_digits_def pad_def digits_val_zeros digits_val_dec)

lemma pad_digits: "list_all is_digit (pad w n)"
  unfolding pad_def list_all_append using dec_digits by (auto simp: is_digit_def list_all_iff)

lemma digits_split:
  "list_all is_digit xs \<Longrightarrow> list_all is_digit ys \<Longrightarrow> \<not> is_digit c \<Longrightarrow> \<not> is_digit c' \<Longrightarrow>
   xs @ c # r = ys @ c' # r' \<Longrightarrow> xs = ys \<and> c = c' \<and> r = r'"
proof (induction xs arbitrary: ys)
  case Nil then show ?case by (cases ys) auto
next
  case (Cons x xs)
  note p = Cons.prems and ih = Cons.IH
  show ?case
  proof (cases ys)
    case Nil
    with p(1,4,5) show ?thesis by auto
  next
    case (Cons y ys')
    with p have "x = y" and "xs @ c # r = ys' @ c' # r'" and "list_all is_digit ys'" by simp_all
    with ih [of ys'] p(1,3,4) Cons show ?thesis by simp
  qed
qed

lemma pad_split:
  "\<not> is_digit c \<Longrightarrow> \<not> is_digit c' \<Longrightarrow> pad w n @ c # r = pad w' n' @ c' # r' \<Longrightarrow>
   n = n' \<and> c = c' \<and> r = r'"
  using digits_split [OF pad_digits pad_digits] nat_of_digits_pad by metis

subsection \<open>Parsing inverts printing\<close>

lemma py_datetime_eta:
  "\<lparr>pd_year = pd_year t, pd_month = pd_month t, pd_day = pd_day t, pd_hour = pd_hour t,
     pd_minute = pd_minute t, pd_second = pd_second t, pd_microsecond = pd_microsecond t\<rparr> = t"
  by (cases t) simp

text \<open>
  C37. The parser reads back every valid datetime from its \<open>str\<close> text, with or
  without microseconds: storing \<open>str(t)\<close> and formatting it shows \<open>t\<close>.
\<close>

theorem parse_py_str_datetime:
  assumes "valid_datetime t"
  shows "parse_datetime (py_str_datetime t) = Some (Inr t)"
proof -
  note b = valid_datetime_bounds [OF assms]
  show ?thesis
  proof (cases "pd_microsecond t = 0")
    case True
    have e: "\<lparr>pd_year = pd_year t, pd_month = pd_month t, pd_day = pd_day t, pd_hour = pd_hour t,
       pd_minute = pd_minute t, pd_second = pd_second t, pd_microsecond = 0\<rparr> = t"
      using py_datetime_eta [of t] True by simp
    from True assms b show ?thesis
      by (simp add: parse_datetime_def py_str_datetime_def nth_append digits_zpad e
          nat_of_digits_zpad nat_of_digits_Nil Let_def del: power_numeral)
  next
    case False
    with assms b show ?thesis
      by (simp add: parse_datetime_def py_str_datetime_def nth_append digits_zpad
          nat_of_digits_zpad py_datetime_eta Let_def del: power_numeral)
  qed
qed

subsection \<open>The formats\<close>

lemma medium_tokens:
  "tokenize_pattern medium_pattern =
     [Field CHR ''E'' 2, Lit '' '', Field CHR ''M'' 2, Lit '','', Lit '' '', Field CHR ''d'' 2, Lit '','',
      Lit '' '', Field CHR ''y'' 1, Lit '' '', Field CHR ''h'' 1, Lit '':'', Field CHR ''m'' 2,
      Field CHR ''a'' 1]"
  by (simp add: tokenize_pattern_def medium_pattern_def pattern_chars_def quote_def unesc_def)

lemma medium_not_keyword: "medium_pattern \<notin> {''short'', ''long''}"
  by (simp add: medium_pattern_def)

lemma hm_tokens:
  "tokenize_pattern ''h:mma'' = [Field CHR ''h'' 1, Lit '':'', Field CHR ''m'' 2, Field CHR ''a'' 1]"
  by (simp add: tokenize_pattern_def pattern_chars_def quote_def unesc_def)

lemma example_weekday:
  "weekday \<lparr>pd_year = 2019, pd_month = 5, pd_day = 21, pd_hour = 21, pd_minute = 30, pd_second = 0,
     pd_microsecond = 0\<rparr> = 1"
  by (simp add: weekday_def toordinal_def days_before_year_def days_before_month_def is_leap_def)

text \<open>
  C38. The default \<open>medium\<close> format of a stored datetime shows the abbreviated weekday,
  the month and the day as two digits, the year, the hour on the 12-hour clock, the
  minutes and AM or PM, in the order of the pattern \<open>EE MM, dd, y h:mma\<close>.
\<close>

theorem format_datetime_medium:
  assumes "valid_datetime t"
  shows "format_datetime (py_str_datetime t) ''medium'' =
           Some (Inr (take 3 (day_names ! weekday t) @ '' '' @ pad 2 (pd_month t) @ '', '' @
                      pad 2 (pd_day t) @ '', '' @ pad 1 (pd_year t) @ '' '' @ pad 1 (clock_hour t) @
                      '':'' @ pad 2 (pd_minute t) @ (if pd_hour t < 12 then ''AM'' else ''PM'')))"
  using assms
  using medium_not_keyword
  by (simp add: format_datetime_def parse_py_str_datetime babel_format_def medium_tokens
      format_field_def Let_def)

lemma clock_hour_inj:
  "h < 24 \<Longrightarrow> h' < 24 \<Longrightarrow> (h < 12 \<longleftrightarrow> h' < 12) \<Longrightarrow>
   (if h mod 12 = 0 then 12 else h mod 12) = (if h' mod 12 = 0 then 12 else (h' :: nat) mod 12) \<Longrightarrow> h = h'"
  by (cases "h < 12") (auto simp: mod_if split: if_splits)

text \<open>
  C39. The time as the pattern \<open>h:mma\<close> shows it determines the hour and the minute:
  two valid datetimes shown alike have the same time of day.
\<close>

theorem clock_display_determines_time:
  assumes "valid_datetime t" and "valid_datetime t'"
    and "babel_format ''h:mma'' t = babel_format ''h:mma'' t'"
  shows "pd_hour t = pd_hour t' \<and> pd_minute t = pd_minute t'"
proof -
  let ?a = "\<lambda>t. if pd_hour t < 12 then CHR ''A'' else CHR ''P''"
  have am: "(if b then ''AM'' else ''PM'') = (if b then CHR ''A'' else CHR ''P'') # ''M''" for b
    by simp
  from assms(3) have "pad 1 (clock_hour t) @ CHR '':'' # pad 2 (pd_minute t) @
                        (if pd_hour t < 12 then ''AM'' else ''PM'') =
                      pad 1 (clock_hour t') @ CHR '':'' # pad 2 (pd_minute t') @
                        (if pd_hour t' < 12 then ''AM'' else ''PM'')"
    by (simp add: babel_format_def hm_tokens format_field_def Let_def)
  then have e: "pad 1 (clock_hour t) @ CHR '':'' # pad 2 (pd_minute t) @ ?a t # ''M'' =
                pad 1 (clock_hour t') @ CHR '':'' # pad 2 (pd_minute t') @ ?a t' # ''M''"
    by (simp only: am)
  have nd: "\<not> is_digit CHR '':''" "\<not> is_digit (?a t)" "\<not> is_digit (?a t')"
    by (simp_all add: is_digit_def)
  from pad_split [OF nd(1) nd(1) e]
  have h: "clock_hour t = clock_hour t'"
    and r: "pad 2 (pd_minute t) @ ?a t # ''M'' = pad 2 (pd_minute t') @ ?a t' # ''M''" by simp_all
  from pad_split [OF nd(2) nd(3) r]
  have m: "pd_minute t = pd_minute t'" and ap: "?a t = ?a t'" by simp_all
  from ap have "(pd_hour t < 12) = (pd_hour t' < 12)"
    by (cases "pd_hour t < 12"; cases "pd_hour t' < 12") simp_all
  moreover have "pd_hour t < 24" "pd_hour t' < 24"
    using assms(1,2) by (simp_all add: valid_datetime_def)
  ultimately have "pd_hour t = pd_hour t'"
    using h clock_hour_inj unfolding clock_hour_def by blast
  with m show ?thesis by simp
qed

end
