(* ===== verification/Spec2Isabelle.thy ===== *)
theory Spec2Isabelle
  imports App Filters
begin

text \<open>
  \<^bold>\<open>A verification library for the Fyyur venue-booking application.\<close>
  The program is the Flask application \<^verbatim>\<open>src/projects/01_fyyur/starter_code/app.py\<close>:
  three SQLAlchemy models (\<open>Venue\<close>, \<open>Artist\<close>, \<open>Show\<close>, lines 31-74) stored in
  PostgreSQL, and twenty view functions (lines 95-464) that read the tables, render
  templates, and create, edit and delete rows through one database session per request.
  The library models each part as executable HOL definitions and proves what the code
  does, on every branch, errors included.

  \<^bold>\<open>Theories, in import order.\<close>
  \<^item> \<open>Prelude\<close>: key and table types (a table is a key-ordered association list
    \<open>(ident \<times> 'r) list\<close>), the Python exceptions the views raise (\<open>py_exc\<close>) and the
    status the error views give them (\<open>status_of\<close>, lines 466-472), and list lemmas
    shared by the components (first-occurrence deduplication \<open>uniq\<close>, \<open>append_new\<close>).
  \<^item> \<open>Text\<close>: the library semantics the views rely on: \<open>' '.join\<close> and
    \<open>str.split(' ')\<close> (\<open>py_join\<close>, \<open>py_split\<close>, lines 146 and 182),
    \<open>'%{}%'.format(term)\<close> (\<open>contains_pattern\<close>, with \<open>str(None)\<close>),
    PostgreSQL \<open>ILIKE\<close> with \<open>%\<close>, \<open>_\<close> and backslash over ASCII case folding
    (\<open>like\<close>, \<open>ilike\<close>, line 137), and the \<open>int4\<close> input syntax (\<open>parse_int4\<close>).
  \<^item> \<open>Dates\<close>: \<open>datetime\<close> values with their range checks and \<open>str(datetime)\<close>
    (\<open>py_str_datetime\<close>), the text the show dates are compared with (lines 151, 267).
  \<^item> \<open>Model\<close>: the records \<open>venue\<close>, \<open>artist\<close>, \<open>show_row\<close> and the database
    \<open>db\<close> (three tables and their id sequences); the column constraints
    (\<open>venue_cols_ok\<close>, \<open>artist_cols_ok\<close>, \<open>show_ok\<close>); the unit of work of each view
    (\<open>change\<close>); \<open>commit\<close>, which returns the new database or the database error
    the session raises (\<open>Data_error\<close>, \<open>Integrity_error\<close>, \<open>Stale_data\<close>); and
    \<open>rollback\<close>. Sequences stop at the \<open>int4\<close> maximum, and a show insert that fails
    after \<open>nextval\<close> keeps its id consumed.
  \<^item> \<open>Query\<close>: the read-only views as functions of the database: \<open>index\<close>,
    \<open>venues\<close> (the grouping loop \<open>venues_loop\<close>, and \<open>venues_while\<close>, the same
    loop over its iterator), \<open>search_venues\<close>, \<open>search_artists\<close>, \<open>show_venue\<close>,
    \<open>show_artist\<close> (the past/upcoming split \<open>partition_shows\<close>), \<open>artists\<close>,
    \<open>shows_view\<close>, \<open>delete_venue\<close>, \<open>edit_venue\<close>, \<open>edit_artist\<close>.
  \<^item> \<open>Handlers\<close>: the form (Werkzeug \<open>MultiDict\<close> as a list of pairs), the
    application state \<open>app\<close> (database and flashed messages), the template data
    \<open>page\<close>, \<open>url_for\<close> over the registered endpoints, and the six POST views
    \<open>create_venue_submission\<close>, \<open>delete_venue_form\<close>, \<open>edit_artist_submission\<close>,
    \<open>edit_venue_submission\<close>, \<open>create_artist_submission\<close>,
    \<open>create_show_submission\<close>, each a function \<open>app \<Rightarrow> response \<times> app\<close>.
  \<^item> \<open>Filters\<close>: the template filter \<open>format_datetime\<close> (lines 81-89):
    \<open>dateutil.parser.parse\<close> on the stored date texts (\<open>parse_datetime\<close>) and Babel's
    pattern formatting for the English locale (\<open>tokenize_pattern\<close>, \<open>babel_format\<close>,
    with the weekday from CPython's \<open>toordinal\<close>).
  \<^item> \<open>App\<close>: the routes as the datatype \<open>request\<close>, the dispatcher \<open>handle\<close>, the
    reachable states (\<open>reachable\<close>, an inductive step relation from the empty
    database), and \<open>run\<close>, which serves a list of requests in order, with the
    invariant, bounds, atomicity and response-kind theorems.
  \<^item> \<open>Spec2Isabelle\<close> (this theory): the scenarios that span the handlers and the
    views (create, read, edit, delete, failures, progress, interleaved requests) and
    the worked examples.

  \<^bold>\<open>How the model corresponds to the code.\<close> A view that raises outside its \<open>try\<close>
  block answers \<open>Abort 400\<close> (\<open>BadRequestKeyError\<close> of a missing form field) or
  \<open>Abort 500\<close> (any other exception, as the production error handler does). A view's
  \<open>try\<close> block is one \<open>commit\<close> of one \<open>change\<close>; \<open>except\<close> is the \<open>Inl\<close> branch,
  which flashes the failure and keeps the database as \<open>rollback\<close> leaves it. Queries
  without \<open>ORDER BY\<close> return rows in key order. Python \<open>False\<close> stored in a text
  column is the string \<open>false\<close>. After a rollback SQLAlchemy reloads an edited object,
  so the failure messages show the old name.

  \<^bold>\<open>What is proved.\<close>
  \<^item> Invariants and safety: every reachable database is well formed (keys sorted,
    positive, below their sequence; rows fit their columns; show foreign keys valid),
    keys stay within \<open>int4\<close>, read-only views leave the state unchanged, and a request
    commits one unit of work or leaves every row as it was.
  \<^item> Refinement: \<open>commit\<close> acts on the venue and artist tables, read as finite maps,
    as the abstract operations \<open>venue_spec\<close> and \<open>artist_spec\<close>.
  \<^item> Equivalence and termination: the grouping loop equals its reference definition
    (distinct locations in first-seen order), and terminates as a while loop;
    the string order on \<open>str(datetime)\<close> is chronological, and parsing a stored
    \<open>str(datetime)\<close> gives the datetime back; reachable states are exactly
    the results of request sequences.
  \<^item> Functional behaviour: the partition of the venues page, the venue page's show
    split, search as case-insensitive substring match, the home page's latest ten,
    create-then-read, edit-then-read, delete (shows lose their venue), show creation,
    progress: a valid venue is always accepted while ids remain, and two edits of one
    venue that load it before either commits both report success while only the
    later one survives (last writer wins, as the specification says).
  \<^item> Errors: deleted or unknown ids answer 500 (never 404), a failed artist edit
    answers 500 through \<open>url_for('indes')\<close>, failed creations are rolled back, a
    missing search term searches for \<open>None\<close>, an unescaped \<open>_\<close> matches every name,
    a missing form field answers 400, and a venue deleted while it is being edited makes
    the edit answer 500.
  The worked examples at the end replay the specification's data (The Musical Hop,
  Park Square Live Music \& Coffee, Guns N Petals) through \<open>handle\<close> and apply
  each claim there.

  \<^bold>\<open>Bounds.\<close> No fuel is needed: every loop of the code is structural recursion
  over a finite query result, and \<open>venues_while\<close> is shown to stop. The id sequences
  are bounded by \<open>int4_max\<close> = 2147483647, as PostgreSQL's \<open>integer\<close> type is.

  \<^bold>\<open>Not modelled.\<close> The Jinja templates are not under \<open>src/\<close>; which
  template applies the \<open>datetime\<close> filter to which value is therefore not modelled,
  and the filter's parser covers only the date texts the application itself stores;
  the WTForms classes
  (\<open>forms.py\<close>) and \<open>config.py\<close> are not under \<open>src/\<close>, and the views never
  validate the form objects they build; logging and launch (lines 475-497) are I/O.
  Interleaving is modelled for the venue edit only, which is split into its load phase
  (\<open>edit_venue_begin\<close>) and its commit phase (\<open>edit_venue_finish\<close>) so that another
  request can run between them; every other view is one atomic step of \<open>handle\<close>.
  Case folding is ASCII; PostgreSQL's hexadecimal and underscore integer syntax is
  not modelled; the clock is an input of the request.
\<close>

text \<open>Example inputs for the witnesses below.\<close>

definition hop_form :: form where
  "hop_form =
     [(''name'', ''The Musical Hop''), (''city'', ''San Francisco''), (''state'', ''CA''),
      (''address'', ''1015 Folsom Street''), (''phone'', ''123-123-1234''),
      (''genres'', ''Jazz''), (''genres'', ''Reggae''), (''facebook_link'', ''''),
      (''image_link'', ''''), (''website_link'', ''''), (''seeking_description'', '''')]"

definition hop_venue :: venue where
  "hop_venue = \<lparr>v_name = ''The Musical Hop'', v_city = ''San Francisco'', v_state = ''CA'',
     v_address = ''1015 Folsom Street'', v_phone = ''123-123-1234'', v_genres = ''Jazz Reggae'',
     v_image_link = '''', v_facebook_link = Some '''', v_website_link = Some '''',
     v_seeking_talent = ''false'', v_seeking_description = Some ''''\<rparr>"

definition park_form :: form where
  "park_form =
     [(''name'', ''Park Square Live Music & Coffee''), (''city'', ''San Francisco''), (''state'', ''CA''),
      (''address'', ''34 Whiskey Moore Ave''), (''phone'', ''415-000-1234''),
      (''facebook_link'', ''''), (''image_link'', ''''), (''website_link'', ''''),
      (''seeking_talent'', ''y''), (''seeking_description'', '''')]"

definition park_venue :: venue where
  "park_venue = \<lparr>v_name = ''Park Square Live Music & Coffee'', v_city = ''San Francisco'',
     v_state = ''CA'', v_address = ''34 Whiskey Moore Ave'', v_phone = ''415-000-1234'', v_genres = '''',
     v_image_link = '''', v_facebook_link = Some '''', v_website_link = Some '''',
     v_seeking_talent = ''y'', v_seeking_description = Some ''''\<rparr>"

definition guns_form :: form where
  "guns_form =
     [(''name'', ''Guns N Petals''), (''city'', ''San Francisco''), (''state'', ''CA''),
      (''phone'', ''326-123-5000''), (''genres'', ''Rock''), (''facebook_link'', ''''),
      (''image_link'', ''''), (''website_link'', ''''), (''seeking_description'', '''')]"

definition guns_artist :: artist where
  "guns_artist = \<lparr>a_name = ''Guns N Petals'', a_city = ''San Francisco'', a_state = ''CA'',
     a_phone = ''326-123-5000'', a_genres = ''Rock'', a_image_link = '''', a_facebook_link = Some '''',
     a_website_link = Some '''', a_seeking_venue = ''false'', a_seeking_description = Some ''''\<rparr>"

definition long_form :: form where
  "long_form = (''name'', replicate 101 CHR ''x'') # tl guns_form"

definition show_form :: form where
  "show_form = [(''artist_id'', ''1''), (''venue_id'', ''1''), (''start_time'', ''2035-04-01 20:00:00'')]"

definition gig :: show_row where
  "gig = \<lparr>s_date = ''2035-04-01 20:00:00'', s_venue_id = Some 1, s_artist_id = Some 1\<rparr>"

definition st1 :: app where "st1 = snd (handle init_app (Post_create_venue hop_form))"
definition st2 :: app where "st2 = snd (handle st1 (Post_create_venue park_form))"
definition st3 :: app where "st3 = snd (handle st2 (Post_create_artist guns_form))"
definition st4 :: app where "st4 = snd (handle st3 (Post_create_show show_form))"

definition no_venue_show_form :: form where
  "no_venue_show_form = [(''artist_id'', ''1''), (''start_time'', ''2035-04-01 20:00:00'')]"

definition new_year :: py_datetime where
  "new_year = \<lparr>pd_year = 2024, pd_month = 1, pd_day = 1, pd_hour = 0, pd_minute = 0, pd_second = 0,
                pd_microsecond = 500000\<rparr>"

definition gig_time :: py_datetime where
  "gig_time = \<lparr>pd_year = 2035, pd_month = 4, pd_day = 1, pd_hour = 20, pd_minute = 0, pd_second = 0,
                pd_microsecond = 0\<rparr>"

definition bad_artist_show_form :: form where
  "bad_artist_show_form =
     [(''artist_id'', ''7''), (''venue_id'', ''1''), (''start_time'', ''2035-04-01 20:00:00'')]"

definition musical_hop_gig :: py_datetime where
  "musical_hop_gig = \<lparr>pd_year = 2019, pd_month = 5, pd_day = 21, pd_hour = 21, pd_minute = 30,
                       pd_second = 0, pd_microsecond = 0\<rparr>"

definition evening :: py_datetime where
  "evening = \<lparr>pd_year = 2024, pd_month = 1, pd_day = 1, pd_hour = 20, pd_minute = 0, pd_second = 0,
               pd_microsecond = 0\<rparr>"

section \<open>Creating, reading, updating and deleting a venue\<close>

lemma show_venue_after_create:
  assumes "wf_db (store st)" and "venue_form f = Some v" and "venue_cols_ok v"
    and "next_venue_id (store st) \<le> int4_max" and "create_venue_submission f st = (resp, st')"
  shows "resp = Redirect ''/''"
    and "show_venue (store st') now (next_venue_id (store st)) =
           Inr (detail_of v (v_genres v) now [])"
proof -
  let ?d = "store st"
  have st': "store st' = ?d\<lparr>venue_rows := add_row (next_venue_id ?d) v (venue_rows ?d),
                            next_venue_id := next_venue_id ?d + 1\<rparr>"
    and "resp = Redirect ''/''"
    using assms(5) create_venue_submission_ok [OF assms(2,3,4)] by auto
  then show "resp = Redirect ''/''" by simp
  have wf: "table_wf (next_venue_id ?d) (venue_rows ?d)"
    using assms(1) by (simp add: wf_db_def)
  have "get_row (venue_rows (store st')) (next_venue_id ?d) = Some v"
    using wf by (simp add: st' get_row_def map_of_add_row)
  moreover have "venue_shows (store st') (next_venue_id ?d) = []"
    using venue_shows_fresh [OF assms(1)] by (simp add: st' venue_shows_def)
  ultimately show "show_venue (store st') now (next_venue_id ?d) = Inr (detail_of v (v_genres v) now [])"
    by (simp add: show_venue_def)
qed

text \<open>
  C11. Creating a venue and then opening its page (its key is the next value of the table's
  sequence) shows the submitted row, the genres split back into a list, and no shows.
\<close>

theorem create_venue_then_show:
  assumes "wf_db (store st)" and "venue_form f = Some v" and "venue_cols_ok v"
    and "next_venue_id (store st) \<le> int4_max" and "create_venue_submission f st = (resp, st')"
  shows "resp = Redirect ''/'' \<and>
         show_venue (store st') now (next_venue_id (store st)) =
           Inr \<lparr>dt_entity = v, dt_genres = py_split CHR '' '' (v_genres v), dt_past_shows = [],
                dt_upcoming_shows = [], dt_past_count = 0, dt_upcoming_count = 0\<rparr>"
  using show_venue_after_create [OF assms] by (simp add: detail_of_Nil)

text \<open>
  C12. The genres survive the round trip through the \<open>genres\<close> column when no genre
  contains a space and at least one genre is chosen; with none chosen, the page shows
  one empty genre.
\<close>

theorem create_venue_genres:
  assumes "wf_db (store st)" and "venue_form f = Some v" and "venue_cols_ok v"
    and "next_venue_id (store st) \<le> int4_max" and "create_venue_submission f st = (resp, st')"
    and "list_all (\<lambda>g. CHR '' '' \<notin> set g) (form_getlist f ''genres'')"
    and "show_venue (store st') now (next_venue_id (store st)) = Inr p"
  shows "dt_genres p = (if form_getlist f ''genres'' = [] then [[]] else form_getlist f ''genres'')"
proof -
  have "p = detail_of v (v_genres v) now []"
    using show_venue_after_create (2) [OF assms(1-5)] assms(7) by simp
  moreover have "v_genres v = py_join '' '' (form_getlist f ''genres'')"
    using venue_form_fields [OF assms(2)] by simp
  ultimately show ?thesis
    using py_split_join [OF _ assms(6)] by (simp add: detail_of_Nil)
qed

text \<open>
  C13. Editing an existing venue replaces its row by the submitted one and leaves every other
  venue, every artist and every show as they were.
\<close>

theorem edit_venue_then_get:
  assumes "get_row (venue_rows (store st)) i = Some old" and "venue_form f = Some v"
    and "venue_cols_ok v" and "edit_venue_submission i f st = (resp, st')"
  shows "resp = Redirect ''/'' \<and> venue_map (store st') = (venue_map (store st))(i \<mapsto> v) \<and>
         artist_rows (store st') = artist_rows (store st) \<and>
         show_rows (store st') = show_rows (store st)"
proof -
  have i: "i \<in> set (map fst (venue_rows (store st)))"
    using assms(1) by (force simp: get_row_def dest: map_of_SomeD)
  from assms(4) edit_venue_submission_ok [OF assms(1-3)] i show ?thesis
    by (auto simp: venue_map_def map_of_set_row_key map_of_set_row_mem)
qed

text \<open>
  C14. After the delete form is posted for a key, the venue page for that key fails: the
  \<open>AttributeError\<close> of \<open>None.genres\<close>, which Flask answers with status 500 and not
  with the 404 of a missing resource.
\<close>

theorem delete_venue_then_show:
  assumes "delete_venue_form i st = (resp, st')"
  shows "show_venue (store st') now i = Inl AttributeError"
proof (cases "get_row (venue_rows (store st)) i")
  case None
  with assms show ?thesis by (simp add: delete_venue_form_missing show_venue_def)
next
  case (Some v)
  from assms have "snd (delete_venue_form i st) = st'" by simp
  with Some show ?thesis by (auto simp: delete_venue_form_ok show_venue_def)
qed

text \<open>
  C15. Deleting a venue keeps its shows: each loses its venue (\<open>venue_id\<close> becomes
  \<open>NULL\<close>) and stays in the table, on its artist's page.
\<close>

theorem delete_venue_orphans_shows:
  assumes "get_row (venue_rows (store st)) i = Some v" and "delete_venue_form i st = (resp, st')"
  shows "map fst (show_rows (store st')) = map fst (show_rows (store st)) \<and>
         venue_shows (store st') i = [] \<and>
         (\<forall>k s. (k, s) \<in> set (venue_shows (store st) i) \<longrightarrow>
                (k, s\<lparr>s_venue_id := None\<rparr>) \<in> set (show_rows (store st')))"
proof -
  have "snd (delete_venue_form i st) = st'" using assms(2) by simp
  then have st': "show_rows (store st') = nullify_venue i (show_rows (store st))"
    by (auto simp: delete_venue_form_ok [OF assms(1)])
  have "venue_shows (store st') i = []"
    by (force simp: st' venue_shows_def filter_empty_conv dest: nullify_venue_rows)
  moreover have "(k, s\<lparr>s_venue_id := None\<rparr>) \<in> set (show_rows (store st'))"
    if "(k, s) \<in> set (venue_shows (store st) i)" for k s
    using that by (force simp: st' venue_shows_def nullify_venue_def)
  ultimately show ?thesis by (simp add: st')
qed

section \<open>Failures\<close>



text \<open>
  C18. A show posted without a \<open>venue_id\<close> is stored with a \<open>NULL\<close> venue: the handler does
  not check the form, and the nullable foreign key accepts it.
\<close>

theorem create_show_without_venue:
  assumes "form_get f ''venue_id'' = None" and "form_get f ''artist_id'' = Some a"
    and "parse_int4 a = Some k" and "k \<in> set (map fst (artist_rows (store st)))"
    and "form_get f ''start_time'' = Some t" and "fits 30 t"
    and "next_show_id (store st) \<le> int4_max"
  shows "create_show_submission f st =
           (Render ''pages/home.html'' No_args,
            flash ''Show was successfully listed!''
              (st\<lparr>store := (store st)\<lparr>show_rows := add_row (next_show_id (store st))
                   \<lparr>s_date = t, s_venue_id = None, s_artist_id = Some k\<rparr> (show_rows (store st)),
                   next_show_id := next_show_id (store st) + 1\<rparr>\<rparr>))"
  using assms by (simp add: create_show_submission_def coerce_key_def Let_def)

text \<open>
  C19. A search posted without a \<open>search_term\<close> field searches for the text \<open>None\<close>.
\<close>

theorem search_venues_missing_term:
  "fst (search_venues d None) = filter (\<lambda>(_, v). sublist ''none'' (lower (v_name v))) (venue_rows d)"
proof -
  have "contains_pattern None = contains_pattern (Some ''None'')"
    by (simp add: contains_pattern_def py_str_def)
  moreover have "no_wild ''None''" by (simp add: no_wild_def)
  moreover have "lower ''None'' = ''none''" by code_simp
  ultimately show ?thesis
    by (simp add: search_venues_def Let_def ilike_contains_sublist)
qed

section \<open>Progress and failed inserts\<close>

text \<open>
  C31. From every reachable state a well-formed venue form is accepted while the venue
  sequence has values left: the handler redirects home, the venue is stored under the
  next key, which was free, and the new state is reachable.
\<close>

theorem create_venue_progress:
  assumes "reachable st" and "venue_form f = Some v" and "venue_cols_ok v"
    and "next_venue_id (store st) \<le> int4_max"
  shows "\<exists>st'. handle st (Post_create_venue f) = (Redirect ''/'', st') \<and> reachable st' \<and>
           next_venue_id (store st) \<notin> dom (venue_map (store st)) \<and>
           venue_map (store st') = (venue_map (store st))(next_venue_id (store st) \<mapsto> v)"
proof -
  let ?d = "store st"
  let ?st' = "snd (create_venue_submission f st)"
  have h: "handle st (Post_create_venue f) = (Redirect ''/'', ?st')"
    using create_venue_submission_ok [OF assms(2-4)] by simp
  have wf: "table_wf (next_venue_id ?d) (venue_rows ?d)"
    using reachable_invariant [OF assms(1)] by (simp add: wf_db_def)
  have "reachable ?st'" using reachable.step [OF assms(1) h] .
  moreover have "next_venue_id ?d \<notin> dom (venue_map ?d)"
    using table_wf_fresh_map_of [OF wf] by (simp add: venue_map_def domIff)
  moreover have "venue_map (store ?st') = (venue_map ?d)(next_venue_id ?d \<mapsto> v)"
    using create_venue_submission_ok [OF assms(2-4)] map_of_add_row [OF wf]
    by (simp add: venue_map_def)
  ultimately show ?thesis using h by blast
qed

text \<open>
  C32. A show for an artist key that parses but names no artist is not listed, and the
  show sequence still advances: \<open>nextval\<close> ran before the foreign-key check failed, and
  the rollback does not return the value.
\<close>

theorem create_show_unknown_artist:
  assumes "form_get f ''artist_id'' = Some a" and "parse_int4 a = Some k"
    and "k \<notin> set (map fst (artist_rows (store st)))"
    and "key_parses (form_get f ''venue_id'')"
    and "form_get f ''start_time'' = Some t" and "fits 30 t"
    and "next_show_id (store st) \<le> int4_max"
  shows "create_show_submission f st =
           (Render ''pages/home.html'' No_args,
            flash ''Show was not listed!''
              (st\<lparr>store := (store st)\<lparr>next_show_id := next_show_id (store st) + 1\<rparr>\<rparr>))"
  using assms
  by (simp add: create_show_submission_def coerce_key_def rollback_def key_parses_def Let_def)

section \<open>Interleaved requests\<close>

lemma set_row_set_row [simp]: "set_row i b (set_row i a t) = set_row i b t"
  by (induction t) (auto simp: set_row_def)


text \<open>
  C34. An edit that has loaded a venue and read its form, when the venue is deleted by
  another request before the edit commits, answers 500: the \<open>UPDATE\<close> finds no row
  (\<open>StaleDataError\<close>), the rollback expires the object, and reading \<open>venue.name\<close> for
  the failure message raises \<open>ObjectDeletedError\<close>. The database is left as the delete
  left it.
\<close>

theorem edit_delete_race:
  assumes "get_row (venue_rows (store st)) i = Some old"
    and "edit_venue_begin i f (store st) = Inr v"
    and "delete_venue_form i st = (resp_b, st_b)"
  shows "edit_venue_finish i v st_b = (Abort 500, st_b)"
proof -
  have st_b: "store st_b = (store st)\<lparr>show_rows := nullify_venue i (show_rows (store st)),
                                      venue_rows := del_row i (venue_rows (store st))\<rparr>"
    using delete_venue_form_ok [OF assms(1)] assms(3) by simp
  have "i \<notin> set (map fst (venue_rows (store st_b)))"
    by (auto simp: st_b del_row_def)
  then show ?thesis
    by (simp add: edit_venue_finish_def st_b Let_def)
qed

section \<open>Requests rejected before the database\<close>

text \<open>
  C35. A create form that lacks one of the fields the view reads with
  \<open>request.form[...]\<close> is answered with 400 and changes nothing.
\<close>

theorem create_missing_field:
  "(venue_form f = None \<longrightarrow> handle st (Post_create_venue f) = (Abort 400, st)) \<and>
   (artist_form f = None \<longrightarrow> handle st (Post_create_artist f) = (Abort 400, st))"
  by (simp add: create_venue_submission_def create_artist_submission_def)

text \<open>
  C36. Posting the delete form for a key without a venue is answered with 500
  (\<open>db.session.delete(None)\<close> raises before the \<open>try\<close>) and changes nothing.
\<close>

theorem delete_unknown_venue:
  assumes "get_row (venue_rows (store st)) i = None"
  shows "handle st (Post_delete_venue i) = (Abort 500, st)"
  using delete_venue_form_missing [OF assms] by simp

section \<open>Worked examples\<close>

text \<open>The examples of the specification run through \<^const>\<open>handle\<close>: two venues, an artist and a show are created
  from the initial state, and each claim above is applied to them.\<close>

lemmas eval_simps = form_get_def form_getlist_def form_flag_def venue_form_def artist_form_def
  venue_cols_ok_def artist_cols_ok_def fits_def fits_opt_def init_db_def init_app_def
  add_row_def get_row_def flash_def int4_max_def

lemma store_st1: "store st1 = init_db\<lparr>venue_rows := [(1, hop_venue)], next_venue_id := 2\<rparr>"
  by (simp add: st1_def hop_form_def hop_venue_def eval_simps create_venue_submission_def)

lemma store_st2:
  "store st2 = init_db\<lparr>venue_rows := [(1, hop_venue), (2, park_venue)], next_venue_id := 3\<rparr>"
  using store_st1
  by (simp add: st2_def park_form_def park_venue_def eval_simps create_venue_submission_def)

lemma store_st3:
  "store st3 = init_db\<lparr>venue_rows := [(1, hop_venue), (2, park_venue)], next_venue_id := 3,
                        artist_rows := [(1, guns_artist)], next_artist_id := 2\<rparr>"
  using store_st2
  by (simp add: st3_def guns_form_def guns_artist_def eval_simps create_artist_submission_def)

lemma parse_int4_one: "parse_int4 ''1'' = Some 1"
  by code_simp

lemma store_st4:
  "store st4 = init_db\<lparr>venue_rows := [(1, hop_venue), (2, park_venue)], next_venue_id := 3,
                        artist_rows := [(1, guns_artist)], next_artist_id := 2,
                        show_rows := [(1, gig)], next_show_id := 2\<rparr>"
  using store_st3
  by (simp add: st4_def show_form_def gig_def eval_simps create_show_submission_def
      coerce_key_def parse_int4_one)

lemma reachable_st4: "reachable st1 \<and> reachable st2 \<and> reachable st3 \<and> reachable st4"
proof -
  have r1: "reachable st1" unfolding st1_def
    by (rule reachable.step [OF reachable.init prod.collapse [symmetric]])
  have r2: "reachable st2" unfolding st2_def
    by (rule reachable.step [OF r1 prod.collapse [symmetric]])
  have r3: "reachable st3" unfolding st3_def
    by (rule reachable.step [OF r2 prod.collapse [symmetric]])
  have r4: "reachable st4" unfolding st4_def
    by (rule reachable.step [OF r3 prod.collapse [symmetric]])
  from r1 r2 r3 r4 show ?thesis by simp
qed

theorem reachable_wf_witness: "reachable st4 \<and> wf_db (store st4)"
  using reachable_wf [of st4] reachable_st4 by simp


theorem handle_read_only_witness: "read_only Get_venues \<and> snd (handle st1 Get_venues) = st1"
  using handle_read_only [of Get_venues st1 "fst (handle st1 Get_venues)" "snd (handle st1 Get_venues)"]
  by simp

theorem create_venue_then_show_witness:
  "show_venue (store st1) ''2024-01-01 00:00:00'' 1 =
     Inr \<lparr>dt_entity = hop_venue, dt_genres = [''Jazz'', ''Reggae''], dt_past_shows = [],
          dt_upcoming_shows = [], dt_past_count = 0, dt_upcoming_count = 0\<rparr>"
proof -
  have h1: "wf_db (store init_app)" by (simp add: init_app_def wf_db_init)
  have h2: "venue_form hop_form = Some hop_venue" by (simp add: hop_form_def hop_venue_def eval_simps)
  have h3: "venue_cols_ok hop_venue" by (simp add: hop_venue_def eval_simps)
  have hn: "next_venue_id (store init_app) \<le> int4_max"
    by (simp add: init_app_def init_db_def int4_max_def)
  from create_venue_then_show [OF h1 h2 h3 hn prod.collapse [symmetric]]
  show ?thesis by (simp add: st1_def init_app_def init_db_def hop_venue_def)
qed

theorem create_venue_genres_witness:
  "show_venue (store st2) ''2024-01-01 00:00:00'' 2 =
     Inr (detail_of park_venue '''' ''2024-01-01 00:00:00'' []) \<and>
   dt_genres (detail_of park_venue '''' ''2024-01-01 00:00:00'' []) = [[]]"
proof -
  have h1: "wf_db (store st1)" using reachable_invariant [of st1] reachable_st4 by simp
  have h2: "venue_form park_form = Some park_venue" by (simp add: park_form_def park_venue_def eval_simps)
  have h3: "venue_cols_ok park_venue" by (simp add: park_venue_def eval_simps)
  have h4: "create_venue_submission park_form st1 =
             (fst (create_venue_submission park_form st1), snd (create_venue_submission park_form st1))"
    by simp
  have h5: "list_all (\<lambda>g. CHR '' '' \<notin> set g) (form_getlist park_form ''genres'')"
    by (simp add: park_form_def eval_simps)
  have h6: "show_venue (store (snd (create_venue_submission park_form st1))) ''2024-01-01 00:00:00''
              (next_venue_id (store st1)) = Inr (detail_of park_venue [] ''2024-01-01 00:00:00'' [])"
    using store_st2
    by (simp add: st2_def store_st1 init_db_def show_venue_def get_row_def venue_shows_def
        park_venue_def)
  have hn: "next_venue_id (store st1) \<le> int4_max" by (simp add: store_st1 int4_max_def)
  have "form_getlist park_form ''genres'' = []" by (simp add: park_form_def eval_simps)
  with create_venue_genres [OF h1 h2 h3 hn h4 h5 h6] h6 show ?thesis
    by (simp add: st2_def store_st1 init_db_def)
qed

theorem edit_venue_then_get_witness:
  "venue_map (store (snd (edit_venue_submission 1 park_form st1))) = [1 \<mapsto> park_venue]"
proof -
  have h1: "get_row (venue_rows (store st1)) 1 = Some hop_venue"
    by (simp add: store_st1 init_db_def get_row_def)
  have h2: "venue_form park_form = Some park_venue" by (simp add: park_form_def park_venue_def eval_simps)
  have h3: "venue_cols_ok park_venue" by (simp add: park_venue_def eval_simps)
  from edit_venue_then_get [OF h1 h2 h3 prod.collapse [symmetric]] show ?thesis
    by (simp add: store_st1 init_db_def venue_map_def)
qed

theorem delete_venue_then_show_witness:
  "show_venue (store (snd (delete_venue_form 1 st1))) ''2024-01-01 00:00:00'' 1 = Inl AttributeError"
  by (rule delete_venue_then_show [OF prod.collapse [symmetric]])

theorem delete_venue_orphans_shows_witness:
  "venue_shows (store (snd (delete_venue_form 1 st4))) 1 = [] \<and>
   (1, gig\<lparr>s_venue_id := None\<rparr>) \<in> set (show_rows (store (snd (delete_venue_form 1 st4))))"
proof -
  have h1: "get_row (venue_rows (store st4)) 1 = Some hop_venue"
    by (simp add: store_st4 init_db_def get_row_def)
  have h: "(1, gig) \<in> set (venue_shows (store st4) 1)"
    by (simp add: store_st4 init_db_def venue_shows_def gig_def)
  from delete_venue_orphans_shows [OF h1 prod.collapse [symmetric]] h show ?thesis by blast
qed



theorem create_show_without_venue_witness:
  "show_rows (store (snd (create_show_submission no_venue_show_form st3))) =
     [(1, \<lparr>s_date = ''2035-04-01 20:00:00'', s_venue_id = None, s_artist_id = Some 1\<rparr>)]"
proof -
  have h1: "form_get no_venue_show_form ''venue_id'' = None"
    and h2: "form_get no_venue_show_form ''artist_id'' = Some ''1''"
    and h5: "form_get no_venue_show_form ''start_time'' = Some ''2035-04-01 20:00:00''"
    by (simp_all add: no_venue_show_form_def form_get_def)
  have h4: "1 \<in> set (map fst (artist_rows (store st3)))" by (simp add: store_st3 init_db_def)
  have h6: "fits 30 ''2035-04-01 20:00:00''" by (simp add: fits_def)
  have h7: "next_show_id (store st3) \<le> int4_max" by (simp add: store_st3 init_db_def int4_max_def)
  from create_show_without_venue [OF h1 h2 parse_int4_one h4 h5 h6 h7] show ?thesis
    by (simp add: store_st3 init_db_def add_row_def flash_def)
qed

theorem venues_partition_witness:
  "venues (store st2) =
     [\<lparr>ar_city = ''San Francisco'', ar_state = ''CA'',
       ar_venues = [(1, ''The Musical Hop''), (2, ''Park Square Live Music & Coffee'')]\<rparr>] \<and>
   (\<exists>!a. a \<in> set (venues (store st2)) \<and> (2, ''Park Square Live Music & Coffee'') \<in> set (ar_venues a))"
proof -
  have h1: "wf_db (store st2)" using reachable_invariant [of st2] reachable_st4 by simp
  have h2: "(2, park_venue) \<in> set (venue_rows (store st2))" by (simp add: store_st2 init_db_def)
  have "\<exists>!a. a \<in> set (venues (store st2)) \<and> (2, v_name park_venue) \<in> set (ar_venues a)"
    using venues_partition [OF h1 h2] by blast
  moreover have "venues (store st2) =
     [\<lparr>ar_city = ''San Francisco'', ar_state = ''CA'',
       ar_venues = [(1, ''The Musical Hop''), (2, ''Park Square Live Music & Coffee'')]\<rparr>]"
    by (simp add: store_st2 init_db_def venues_def area_of_def area_venues_def hop_venue_def
        park_venue_def)
  ultimately show ?thesis by (simp add: park_venue_def)
qed

theorem show_venue_partition_witness:
  "dt_upcoming_shows (detail_of hop_venue ''Jazz Reggae'' ''2024-01-01 00:00:00'' [(1, gig)]) = [(1, gig)] \<and>
   dt_past_shows (detail_of hop_venue ''Jazz Reggae'' ''2024-01-01 00:00:00'' [(1, gig)]) = []"
proof -
  have h: "show_venue (store st4) ''2024-01-01 00:00:00'' 1 =
           Inr (detail_of hop_venue ''Jazz Reggae'' ''2024-01-01 00:00:00'' [(1, gig)])"
    by (simp add: store_st4 init_db_def show_venue_def get_row_def venue_shows_def hop_venue_def gig_def)
  have v: "venue_shows (store st4) 1 = [(1, gig)]"
    by (simp add: store_st4 init_db_def venue_shows_def gig_def)
  have "''2024-01-01 00:00:00'' \<le> s_date gig" by (simp add: gig_def)
  with show_venue_partition [OF h] v show ?thesis by simp
qed

theorem search_venues_substring_witness:
  "fst (search_venues (store st2) (Some ''Music'')) = [(1, hop_venue), (2, park_venue)] \<and>
   fst (search_venues (store st2) (Some ''hop'')) = [(1, hop_venue)]"
proof -
  have m: "no_wild ''Music''" and h: "no_wild ''hop''" by (simp_all add: no_wild_def)
  have "sublist (lower ''Music'') (lower (v_name hop_venue))"
    and "sublist (lower ''Music'') (lower (v_name park_venue))"
    and "sublist (lower ''hop'') (lower (v_name hop_venue))"
    and "\<not> sublist (lower ''hop'') (lower (v_name park_venue))"
    unfolding hop_venue_def park_venue_def by code_simp+
  with search_venues_substring [OF m, of "store st2"] search_venues_substring [OF h, of "store st2"]
  show ?thesis by (simp add: store_st2 init_db_def)
qed

theorem index_latest_witness:
  "index (store st2) = ([(2, park_venue), (1, hop_venue)], [])"
proof -
  have "wf_db (store st2)" using reachable_invariant [of st2] reachable_st4 by simp
  from index_latest [OF this] show ?thesis by (simp add: store_st2 init_db_def)
qed



theorem ilike_contains_witness: "ilike ''The Musical Hop'' (contains_pattern (Some ''hop''))"
proof -
  have "no_wild ''hop''" by (simp add: no_wild_def)
  moreover have "sublist (lower ''hop'') (lower ''The Musical Hop'')" by code_simp
  ultimately show ?thesis using ilike_contains by blast
qed


lemma valid_examples: "valid_datetime new_year \<and> valid_datetime gig_time"
  by (simp add: valid_datetime_def days_in_month_def is_leap_def new_year_def gig_time_def)

lemma str_new_year: "py_str_datetime new_year = ''2024-01-01 00:00:00.500000''"
  by (simp add: py_str_datetime_def new_year_def zpad_numeral digit_char_digits)

lemma str_gig_time: "py_str_datetime gig_time = ''2035-04-01 20:00:00''"
  by (simp add: py_str_datetime_def gig_time_def zpad_numeral digit_char_digits)

theorem py_str_datetime_le_witness:
  "''2024-01-01 00:00:00.500000'' \<le> ''2035-04-01 20:00:00'' \<and> dt_key new_year \<le> dt_key gig_time"
proof -
  have "dt_key new_year \<le> dt_key gig_time" by (simp add: dt_key_def new_year_def gig_time_def)
  with py_str_datetime_le [of new_year gig_time] valid_examples show ?thesis
    by (simp add: str_new_year str_gig_time)
qed

theorem show_venue_upcoming_chronological_witness:
  "(1, gig) \<in> set (dt_upcoming_shows
      (detail_of hop_venue ''Jazz Reggae'' ''2024-01-01 00:00:00.500000'' [(1, gig)]))"
proof -
  have h: "show_venue (store st4) (py_str_datetime new_year) 1 =
           Inr (detail_of hop_venue ''Jazz Reggae'' ''2024-01-01 00:00:00.500000'' [(1, gig)])"
    by (simp add: str_new_year store_st4 init_db_def show_venue_def get_row_def venue_shows_def
        hop_venue_def gig_def)
  have x: "(1, gig) \<in> set (venue_shows (store st4) 1)"
    by (simp add: store_st4 init_db_def venue_shows_def gig_def)
  have t: "s_date (snd (1 :: ident, gig)) = py_str_datetime gig_time" by (simp add: gig_def str_gig_time)
  have "dt_key new_year \<le> dt_key gig_time" by (simp add: dt_key_def new_year_def gig_time_def)
  with show_venue_upcoming_chronological [OF h _ _ x t] valid_examples show ?thesis by simp
qed


theorem handle_atomic_witness:
  "(\<exists>c. commit (store st3) c = Inr (store (snd (handle st3 (Post_create_show bad_artist_show_form))))) \<or>
   (venue_rows (store (snd (handle st3 (Post_create_show bad_artist_show_form)))) = venue_rows (store st3) \<and>
    artist_rows (store (snd (handle st3 (Post_create_show bad_artist_show_form)))) = artist_rows (store st3) \<and>
    show_rows (store (snd (handle st3 (Post_create_show bad_artist_show_form)))) = show_rows (store st3))"
  by (rule handle_atomic [OF prod.collapse [symmetric]])

theorem create_venue_progress_witness:
  "\<exists>st'. handle st1 (Post_create_venue park_form) = (Redirect ''/'', st') \<and> reachable st' \<and>
         venue_map (store st') = [1 \<mapsto> hop_venue, 2 \<mapsto> park_venue]"
proof -
  have h1: "reachable st1" using reachable_st4 by simp
  have h2: "venue_form park_form = Some park_venue" by (simp add: park_form_def park_venue_def eval_simps)
  have h3: "venue_cols_ok park_venue" by (simp add: park_venue_def eval_simps)
  have h4: "next_venue_id (store st1) \<le> int4_max" by (simp add: store_st1 int4_max_def)
  from create_venue_progress [OF h1 h2 h3 h4] show ?thesis
    by (simp add: store_st1 init_db_def venue_map_def)
qed

theorem create_show_unknown_artist_witness:
  "create_show_submission bad_artist_show_form st3 =
     (Render ''pages/home.html'' No_args,
      flash ''Show was not listed!'' (st3\<lparr>store := (store st3)\<lparr>next_show_id := 2\<rparr>\<rparr>))"
proof -
  have p: "parse_int4 ''7'' = Some 7" by code_simp
  have h: "form_get bad_artist_show_form ''artist_id'' = Some ''7''"
    "key_parses (form_get bad_artist_show_form ''venue_id'')"
    "form_get bad_artist_show_form ''start_time'' = Some ''2035-04-01 20:00:00''"
    by (simp_all add: bad_artist_show_form_def form_get_def key_parses_def parse_int4_one)
  have k: "7 \<notin> set (map fst (artist_rows (store st3)))" by (simp add: store_st3 init_db_def)
  have f: "fits 30 ''2035-04-01 20:00:00''" by (simp add: fits_def)
  have n: "next_show_id (store st3) \<le> int4_max" by (simp add: store_st3 init_db_def int4_max_def)
  from create_show_unknown_artist [OF h(1) p k h(2) h(3) f n] show ?thesis
    by (simp add: store_st3 init_db_def)
qed

theorem edit_delete_race_witness:
  "edit_venue_finish 1 park_venue (snd (delete_venue_form 1 st1)) =
     (Abort 500, snd (delete_venue_form 1 st1))"
proof -
  have h1: "get_row (venue_rows (store st1)) 1 = Some hop_venue"
    by (simp add: store_st1 init_db_def get_row_def)
  have h2: "edit_venue_begin 1 park_form (store st1) = Inr park_venue"
    using h1 by (simp add: edit_venue_begin_def park_form_def park_venue_def eval_simps)
  show ?thesis by (rule edit_delete_race [OF h1 h2 prod.collapse [symmetric]])
qed

theorem create_missing_field_witness:
  "handle st1 (Post_create_venue []) = (Abort 400, st1) \<and>
   handle st1 (Post_create_artist [(''name'', ''Matt Quevedo'')]) = (Abort 400, st1)"
proof -
  have "venue_form [] = None" and "artist_form [(''name'', ''Matt Quevedo'')] = None"
    by (simp_all add: eval_simps)
  with create_missing_field [of "[]" st1] create_missing_field [of "[(''name'', ''Matt Quevedo'')]" st1]
  show ?thesis by simp
qed

theorem delete_unknown_venue_witness: "handle st1 (Post_delete_venue 5) = (Abort 500, st1)"
proof -
  have "get_row (venue_rows (store st1)) 5 = None" by (simp add: store_st1 init_db_def get_row_def)
  then show ?thesis by (rule delete_unknown_venue)
qed

theorem parse_py_str_datetime_witness:
  "parse_datetime ''2035-04-01 20:00:00'' = Some (Inr gig_time)"
  using parse_py_str_datetime [of gig_time] valid_examples by (simp add: str_gig_time)

theorem format_datetime_medium_witness:
  "format_datetime ''2019-05-21 21:30:00'' ''medium'' = Some (Inr ''Tue 05, 21, 2019 9:30PM'')"
proof -
  have v: "valid_datetime musical_hop_gig"
    by (simp add: valid_datetime_def days_in_month_def is_leap_def musical_hop_gig_def)
  have s: "py_str_datetime musical_hop_gig = ''2019-05-21 21:30:00''"
    by (simp add: py_str_datetime_def musical_hop_gig_def zpad_numeral digit_char_digits)
  have w: "weekday musical_hop_gig = 1"
    using example_weekday by (simp add: musical_hop_gig_def)
  have f: "pd_year musical_hop_gig = 2019" "pd_month musical_hop_gig = 5"
    "pd_day musical_hop_gig = 21" "pd_hour musical_hop_gig = 21" "pd_minute musical_hop_gig = 30"
    by (simp_all add: musical_hop_gig_def)
  have c: "clock_hour musical_hop_gig = 9" by (simp add: clock_hour_def f)
  from format_datetime_medium [OF v] show ?thesis
    unfolding s w c f by (simp add: day_names_def pad_def dec.simps digit_char_digits)
qed

theorem clock_display_determines_time_witness:
  "babel_format ''h:mma'' evening = babel_format ''h:mma'' gig_time \<and>
   pd_hour evening = pd_hour gig_time \<and> pd_minute evening = pd_minute gig_time"
proof -
  have v: "valid_datetime evening"
    by (simp add: valid_datetime_def days_in_month_def is_leap_def evening_def)
  have e: "babel_format ''h:mma'' evening = babel_format ''h:mma'' gig_time"
    by (simp add: babel_format_def hm_tokens format_field_def clock_hour_def evening_def gig_time_def
        Let_def)
  from clock_display_determines_time [OF v _ e] valid_examples e show ?thesis by simp
qed



end
